theory Spec2Isabelle
  imports
    Complex_Main
    "HOL-Library.Log_Nat"
    "HOL-Library.Char_ord"
    "HOL-Library.List_Lexorder"
    "HOL-Library.Product_Lexorder"
begin

section \<open>Python floats\<close>

text \<open>
  The rates, scores and confidences of \<^verbatim>\<open>backend/api/main.py\<close> are Python floats, that
  is IEEE 754 binary64 numbers. A finite float is modelled by the rational number it denotes,
  and every arithmetic operation computes the exact rational result and rounds it to the
  nearest number with a 53 bit significand, ties to the even significand (\<open>fl\<close>). The
  exponent is not bounded: overflow to infinity, subnormal numbers and NaN are not part of
  the model. The quotients of two row counts, their differences and the sums with \<open>0.5\<close>
  that the recommendation computes stay far inside the normal range of binary64.
\<close>

definition round_half_even :: "rat \<Rightarrow> int" where
  "round_half_even q =
     (let f = \<lfloor>q\<rfloor>; d = q - of_int f
      in if d < 1/2 then f else if 1/2 < d then f + 1 else if even f then f else f + 1)"

text \<open>The exponent \<open>e\<close> of a positive rational: \<open>2 powi e \<le> q < 2 powi (e + 1)\<close>.\<close>

definition binary_exponent :: "rat \<Rightarrow> int" where
  "binary_exponent q =
     (if 1 \<le> q then bitlen \<lfloor>q\<rfloor> - 1
      else let m = bitlen \<lfloor>1 / q\<rfloor> - 1 in if 2 powi (- m) \<le> q then - m else - m - 1)"

definition fl :: "rat \<Rightarrow> rat" where
  "fl q =
     (if q = 0 then 0
      else let u = 2 powi (binary_exponent \<bar>q\<bar> - 52)
           in sgn q * of_int (round_half_even (\<bar>q\<bar> / u)) * u)"

text \<open>Python's \<^verbatim>\<open>a / b\<close> on two ints (true division, correctly rounded) for \<open>b \<noteq> 0\<close>,
  and float subtraction and addition.\<close>

definition int_truediv :: "int \<Rightarrow> int \<Rightarrow> rat" where
  "int_truediv a b = fl (of_int a / of_int b)"

definition float_sub :: "rat \<Rightarrow> rat \<Rightarrow> rat" where
  "float_sub x y = fl (x - y)"

definition float_add :: "rat \<Rightarrow> rat \<Rightarrow> rat" where
  "float_add x y = fl (x + y)"

text \<open>The float literals of the source: \<^verbatim>\<open>0.95\<close> and \<^verbatim>\<open>0.55\<close> denote the nearest
  binary64 numbers; \<^verbatim>\<open>0.5\<close>, \<^verbatim>\<open>0.0\<close> and \<^verbatim>\<open>-999.0\<close> are exact.\<close>

definition lit_0_95 :: rat where "lit_0_95 = fl (95 / 100)"
definition lit_0_55 :: rat where "lit_0_55 = fl (55 / 100)"

subsection \<open>Rendering numbers\<close>

definition digit_char :: "nat \<Rightarrow> char" where
  "digit_char d = char_of (48 + d)"

fun show_nat :: "nat \<Rightarrow> string" where
  "show_nat n = (if n < 10 then [digit_char n] else show_nat (n div 10) @ [digit_char (n mod 10)])"

declare show_nat.simps [simp del]

text \<open>\<^verbatim>\<open>str(i)\<close> of an int, as an f-string renders it.\<close>

definition str_int :: "int \<Rightarrow> string" where
  "str_int i = (if i < 0 then CHR ''-'' # show_nat (nat (- i)) else show_nat (nat i))"

text \<open>\<^verbatim>\<open>f"{x:.0%}"\<close>: the float is multiplied by 100 (a float multiplication), printed
  with no fractional digit (the exact binary value, rounded half to even) and followed by a
  percent sign.\<close>

definition format_pct0 :: "rat \<Rightarrow> string" where
  "format_pct0 x = str_int (round_half_even (fl (x * 100))) @ ''%''"

section \<open>The event store\<close>

text \<open>
  One row of the \<^verbatim>\<open>pitches\<close> table, with the sixteen columns of the \<^verbatim>\<open>INSERT\<close> in
  \<^verbatim>\<open>backend/etl/load_pitches.py\<close>. A column that may hold SQL \<^verbatim>\<open>NULL\<close> is an option;
  a \<^verbatim>\<open>REAL\<close> value is a finite float. The table is the list of its rows in the order of a
  table scan.
\<close>

record pitch_event =
  pitcher_id :: int
  game_date :: "string option"
  inning :: "int option"
  top_bottom :: "string option"
  batter_hand :: "string option"
  balls :: "int option"
  strikes :: "int option"
  pitch_type :: "string option"
  velocity :: "rat option"
  plate_x :: "rat option"
  plate_z :: "rat option"
  sz_top :: "rat option"
  sz_bot :: "rat option"
  description :: "string option"
  outcome :: "string option"
  runs_value :: "rat option"

subsection \<open>SQL expressions\<close>

definition ascii_lower :: "char \<Rightarrow> char" where
  "ascii_lower c =
     (let n = (of_char c :: nat) in if 65 \<le> n \<and> n \<le> 90 then char_of (n + 32) else c)"

text \<open>SQLite's \<^verbatim>\<open>LIKE\<close>: \<^verbatim>\<open>%\<close> matches any run of characters, \<^verbatim>\<open>_\<close> matches one
  character, and any other character matches itself without regard to ASCII case.\<close>

fun sql_like :: "string \<Rightarrow> string \<Rightarrow> bool" where
  "sql_like [] s = (s = [])"
| "sql_like (p # ps) s =
     (if p = CHR ''%''
      then sql_like ps s \<or> (case s of [] \<Rightarrow> False | c # cs \<Rightarrow> sql_like (p # ps) cs)
      else (case s of [] \<Rightarrow> False
            | c # cs \<Rightarrow> (p = CHR ''_'' \<or> ascii_lower p = ascii_lower c) \<and> sql_like ps cs))"

text \<open>\<^verbatim>\<open>CASE WHEN description LIKE 'swinging_strike%' THEN 1 ELSE 0 END\<close> and
  \<^verbatim>\<open>CASE WHEN outcome IN ('home_run', 'double', 'triple') THEN 1 ELSE 0 END\<close>: a
  \<^verbatim>\<open>NULL\<close> operand takes the \<^verbatim>\<open>ELSE\<close> branch.\<close>

definition is_whiff :: "pitch_event \<Rightarrow> bool" where
  "is_whiff e = (case description e of None \<Rightarrow> False | Some d \<Rightarrow> sql_like ''swinging_strike%'' d)"

definition is_hard_hit :: "pitch_event \<Rightarrow> bool" where
  "is_hard_hit e =
     (case outcome e of None \<Rightarrow> False | Some v \<Rightarrow> v \<in> set [''home_run'', ''double'', ''triple''])"

subsection \<open>The grouped aggregate of the recommendation\<close>

text \<open>
  Both statements of \<^verbatim>\<open>recommend_pitch\<close> have the same shape; they differ in the clause
  \<^verbatim>\<open>AND batter_hand = ?\<close>. A statement with its parameters is a record: \<open>q_hand\<close> is
  \<open>None\<close> when the clause is absent, \<open>q_min_total\<close> is the constant of
  \<^verbatim>\<open>HAVING total >= 5\<close>.
\<close>

record agg_query =
  q_pitcher :: int
  q_balls :: int
  q_strikes :: int
  q_hand :: "string option"
  q_min_total :: int

text \<open>A result row: \<^verbatim>\<open>(pitch_type, total, whiffs, hard_hits)\<close>.\<close>

type_synonym agg_row = "string \<times> int \<times> int \<times> int"

definition where_clause :: "agg_query \<Rightarrow> pitch_event \<Rightarrow> bool" where
  "where_clause q e \<longleftrightarrow>
     pitcher_id e = q_pitcher q \<and>
     balls e = Some (q_balls q) \<and>
     strikes e = Some (q_strikes q) \<and>
     (case q_hand q of None \<Rightarrow> True | Some h \<Rightarrow> batter_hand e = Some h) \<and>
     pitch_type e \<noteq> None"

definition group_row :: "pitch_event list \<Rightarrow> string \<Rightarrow> agg_row" where
  "group_row es pt =
     (let g = filter (\<lambda>e. pitch_type e = Some pt) es
      in (pt, int (length g), int (length (filter is_whiff g)), int (length (filter is_hard_hit g))))"

text \<open>
  The statements have no \<^verbatim>\<open>ORDER BY\<close>, so SQL leaves the order of the groups to the
  engine. The order is a parameter of the model: \<open>emit\<close> maps the pitch types of the selected
  rows (in order of first appearance) to the order in which the engine returns their
  groups. The theorems below hold for every \<open>emit\<close>.
\<close>

definition sql_aggregate ::
  "(string list \<Rightarrow> string list) \<Rightarrow> pitch_event list \<Rightarrow> agg_query \<Rightarrow> agg_row list" where
  "sql_aggregate emit store q =
     (let es = filter (where_clause q) store;
          keys = emit (remdups (List.map_filter pitch_type es))
      in filter (\<lambda>(pt, tot, whiffs, hard_hits). q_min_total q \<le> tot) (map (group_row es) keys))"

section \<open>The recommendation\<close>

datatype py_error = TypeError | ZeroDivisionError | UnicodeDecodeError | CsvError | OSError

record recommendation_request =
  req_pitcher_id :: int
  req_balls :: int
  req_strikes :: int
  req_batter_hand :: string
  req_last_pitch_type :: "string option"

record historical_outcomes =
  sample_size :: int
  whiff_pct :: rat
  in_play_hard_hit_pct :: rat

record recommendation =
  recommended_pitch_type :: string
  confidence :: rat
  rationale :: "string list"
  historical :: historical_outcomes

text \<open>The loop of \<^verbatim>\<open>recommend_pitch\<close> over the rows, with its two variables
  \<^verbatim>\<open>best_score\<close> and \<^verbatim>\<open>best_pitch\<close>.\<close>

type_synonym best = "rat \<times> (string \<times> int \<times> rat \<times> rat) option"

definition row_rates :: "agg_row \<Rightarrow> rat \<times> rat" where
  "row_rates r =
     (case r of (pt, tot, whiffs, hard_hits) \<Rightarrow>
        (if tot \<noteq> 0 then int_truediv whiffs tot else 0,
         if tot \<noteq> 0 then int_truediv hard_hits tot else 0))"

definition row_score :: "agg_row \<Rightarrow> rat" where
  "row_score r = (case row_rates r of (whiff, hard_hit) \<Rightarrow> float_sub whiff hard_hit)"

fun best_loop :: "agg_row list \<Rightarrow> best \<Rightarrow> best" where
  "best_loop [] b = b"
| "best_loop ((pt, tot, whiffs, hard_hits) # rows) (best_score, best_pitch) =
     (let whiff = (if tot \<noteq> 0 then int_truediv whiffs tot else 0);
          hard_hit = (if tot \<noteq> 0 then int_truediv hard_hits tot else 0);
          score = float_sub whiff hard_hit
      in if best_score < score
         then best_loop rows (score, Some (pt, tot, whiff, hard_hit))
         else best_loop rows (best_score, best_pitch))"

definition default_recommendation :: recommendation where
  "default_recommendation =
     \<lparr>recommended_pitch_type = ''FF'',
      confidence = 1/2,
      rationale = [''Insufficient historical data for this situation; defaulting to four-seam fastball.''],
      historical = \<lparr>sample_size = 0, whiff_pct = 0, in_play_hard_hit_pct = 0\<rparr>\<rparr>"

text \<open>Lines 130 to 154: the loop, the unpacking of \<^verbatim>\<open>best_pitch\<close> (a \<^verbatim>\<open>TypeError\<close>
  when it is still \<^verbatim>\<open>None\<close>) and the response.\<close>

definition score_rows :: "agg_row list \<Rightarrow> py_error + recommendation" where
  "score_rows rows =
     (case best_loop rows (- 999, None) of
        (best_score, None) \<Rightarrow> Inl TypeError
      | (best_score, Some (pt, tot, whiff, hard_hit)) \<Rightarrow>
          Inr \<lparr>recommended_pitch_type = pt,
               confidence = min lit_0_95 (max lit_0_55 (float_add best_score (1/2))),
               rationale =
                 [pt @ '' has a whiff rate of '' @ format_pct0 whiff @
                  '' and hard-hit in-play rate of '' @ format_pct0 hard_hit @
                  '' in similar situations.''],
               historical =
                 \<lparr>sample_size = tot, whiff_pct = whiff, in_play_hard_hit_pct = hard_hit\<rparr>\<rparr>)"

text \<open>
  \<^verbatim>\<open>recommend_pitch\<close>. The cursor is the function \<open>db\<close> from a statement to its rows;
  the result pairs the statements that were executed, in order, with the response.
\<close>

definition exact_hand_query :: "recommendation_request \<Rightarrow> agg_query" where
  "exact_hand_query req =
     \<lparr>q_pitcher = req_pitcher_id req, q_balls = req_balls req, q_strikes = req_strikes req,
      q_hand = Some (req_batter_hand req), q_min_total = 5\<rparr>"

definition pooled_hand_query :: "recommendation_request \<Rightarrow> agg_query" where
  "pooled_hand_query req =
     \<lparr>q_pitcher = req_pitcher_id req, q_balls = req_balls req, q_strikes = req_strikes req,
      q_hand = None, q_min_total = 5\<rparr>"

definition recommend_pitch ::
  "(agg_query \<Rightarrow> agg_row list) \<Rightarrow> recommendation_request \<Rightarrow>
   agg_query list \<times> (py_error + recommendation)" where
  "recommend_pitch db req =
     (let rows = db (exact_hand_query req);
          executed = [exact_hand_query req];
          (rows, executed) =
            (if rows = [] then (db (pooled_hand_query req), executed @ [pooled_hand_query req])
             else (rows, executed))
      in (executed, if rows = [] then Inr default_recommendation else score_rows rows))"

subsection \<open>Notions used to state the properties\<close>

text \<open>A row as a grouped aggregate yields it: a positive count and two counts of a part of
  the group.\<close>

definition aggregate_row :: "agg_row \<Rightarrow> bool" where
  "aggregate_row r =
     (case r of (pt, tot, whiffs, hard_hits) \<Rightarrow>
        0 < tot \<and> 0 \<le> whiffs \<and> whiffs \<le> tot \<and> 0 \<le> hard_hits \<and> hard_hits \<le> tot)"

text \<open>The score of a candidate as the specification words it:
  \<^verbatim>\<open>whiff_rate = whiffs/total\<close>, \<^verbatim>\<open>hard_hit_rate = hard_hits/total\<close>,
  \<^verbatim>\<open>score = whiff_rate - hard_hit_rate\<close>.\<close>

definition spec_score :: "agg_row \<Rightarrow> rat" where
  "spec_score r =
     (case r of (pt, tot, whiffs, hard_hits) \<Rightarrow>
        float_sub (int_truediv whiffs tot) (int_truediv hard_hits tot))"

text \<open>The tuple that the loop stores in \<^verbatim>\<open>best_pitch\<close> for a row.\<close>

definition winner :: "agg_row \<Rightarrow> string \<times> int \<times> rat \<times> rat" where
  "winner r =
     (case r of (pt, tot, whiffs, hard_hits) \<Rightarrow> (pt, tot, fst (row_rates r), snd (row_rates r)))"

section \<open>Usage breakdown and pitch locations\<close>

subsection \<open>The optional batter-hand filter\<close>

text \<open>\<^verbatim>\<open>if batter_hand in ("L", "R")\<close>, for a \<^verbatim>\<open>batter_hand\<close> of type
  \<^verbatim>\<open>Optional[str]\<close>: the clause \<^verbatim>\<open>AND batter_hand = ?\<close> and its parameter are added in
  this case only.\<close>

definition hand_clause :: "string option \<Rightarrow> string option" where
  "hand_clause hand =
     (if hand \<in> set [Some ''L'', Some ''R''] then hand else None)"

subsection \<open>The statement of \<^verbatim>\<open>pitcher_usage\<close>\<close>

record usage_query =
  u_pitcher :: int
  u_hand :: "string option"

text \<open>A result row: \<^verbatim>\<open>(balls, strikes, pitch_type, total, whiffs, hard_hits)\<close>.\<close>

type_synonym usage_row = "int \<times> int \<times> string \<times> int \<times> int \<times> int"

definition usage_where :: "usage_query \<Rightarrow> pitch_event \<Rightarrow> bool" where
  "usage_where q e \<longleftrightarrow>
     pitcher_id e = u_pitcher q \<and> balls e \<noteq> None \<and> strikes e \<noteq> None \<and>
     pitch_type e \<noteq> None \<and>
     (case u_hand q of None \<Rightarrow> True | Some h \<Rightarrow> batter_hand e = Some h)"

definition usage_key :: "pitch_event \<Rightarrow> (int \<times> int \<times> string) option" where
  "usage_key e =
     (case (balls e, strikes e, pitch_type e) of
        (Some b, Some s, Some pt) \<Rightarrow> Some (b, s, pt)
      | _ \<Rightarrow> None)"

definition usage_group :: "pitch_event list \<Rightarrow> int \<times> int \<times> string \<Rightarrow> usage_row" where
  "usage_group es k =
     (case k of (b, s, pt) \<Rightarrow>
        (let g = filter (\<lambda>e. usage_key e = Some k) es
         in (b, s, pt, int (length g), int (length (filter is_whiff g)),
             int (length (filter is_hard_hit g)))))"

text \<open>\<^verbatim>\<open>GROUP BY balls, strikes, pitch_type ORDER BY balls, strikes, pitch_type\<close>: the
  groups in ascending order of the key, integers by value and text by its bytes.\<close>

definition sql_usage :: "pitch_event list \<Rightarrow> usage_query \<Rightarrow> usage_row list" where
  "sql_usage store q =
     (let es = filter (usage_where q) store
      in map (usage_group es) (sort (remdups (List.map_filter usage_key es))))"

subsection \<open>\<^verbatim>\<open>pitcher_usage\<close>\<close>

record usage_entry =
  ue_pitch_type :: string
  ue_total :: int
  ue_whiff_pct :: rat
  ue_hard_hit_pct :: rat

text \<open>The dict \<^verbatim>\<open>usage_by_count\<close> keeps its keys in order of insertion: an association
  list.\<close>

type_synonym usage_by_count = "(string \<times> usage_entry list) list"

record usage_response =
  ur_pitcher_id :: int
  ur_usage_by_count :: usage_by_count

definition append_entry :: "string \<Rightarrow> usage_entry \<Rightarrow> usage_by_count \<Rightarrow> usage_by_count" where
  "append_entry k v d = map (\<lambda>(k', vs). if k' = k then (k', vs @ [v]) else (k', vs)) d"

fun usage_loop :: "usage_row list \<Rightarrow> usage_by_count \<Rightarrow> usage_by_count" where
  "usage_loop [] d = d"
| "usage_loop ((b, s, pt, tot, whiffs, hard_hits) # rows) d =
     (let count_key = str_int b @ ''-'' @ str_int s;
          d = (if count_key \<notin> set (map fst d) then d @ [(count_key, [])] else d);
          whiff = (if tot \<noteq> 0 then int_truediv whiffs tot else 0);
          hard_hit = (if tot \<noteq> 0 then int_truediv hard_hits tot else 0)
      in usage_loop rows
           (append_entry count_key
              \<lparr>ue_pitch_type = pt, ue_total = tot, ue_whiff_pct = whiff,
               ue_hard_hit_pct = hard_hit\<rparr> d))"

text \<open>The cursor is the function \<open>db\<close> from a statement to its rows; the result pairs the
  executed statements with the response.\<close>

definition pitcher_usage ::
  "(usage_query \<Rightarrow> usage_row list) \<Rightarrow> int \<Rightarrow> string option \<Rightarrow>
   usage_query list \<times> usage_response" where
  "pitcher_usage db pid hand =
     (let q = \<lparr>u_pitcher = pid, u_hand = hand_clause hand\<rparr>;
          rows = db q
      in ([q], \<lparr>ur_pitcher_id = pid, ur_usage_by_count = usage_loop rows []\<rparr>))"

subsection \<open>The statement of \<^verbatim>\<open>pitcher_pitches\<close>\<close>

record location_query =
  l_pitcher :: int
  l_balls :: int
  l_strikes :: int
  l_hand :: "string option"
  l_limit :: int

text \<open>A result row:
  \<^verbatim>\<open>(plate_x, plate_z, sz_top, sz_bot, pitch_type, description, outcome)\<close>.\<close>

type_synonym location_row =
  "rat option \<times> rat option \<times> rat option \<times> rat option \<times>
   string option \<times> string option \<times> string option"

definition location_where :: "location_query \<Rightarrow> pitch_event \<Rightarrow> bool" where
  "location_where q e \<longleftrightarrow>
     pitcher_id e = l_pitcher q \<and> balls e = Some (l_balls q) \<and>
     strikes e = Some (l_strikes q) \<and> plate_x e \<noteq> None \<and> plate_z e \<noteq> None \<and>
     (case l_hand q of None \<Rightarrow> True | Some h \<Rightarrow> batter_hand e = Some h)"

definition location_row_of :: "pitch_event \<Rightarrow> location_row" where
  "location_row_of e =
     (plate_x e, plate_z e, sz_top e, sz_bot e, pitch_type e, description e, outcome e)"

text \<open>\<^verbatim>\<open>LIMIT ?\<close> keeps the first rows of the scan; a negative limit is no limit in
  SQLite.\<close>

definition sql_locations :: "pitch_event list \<Rightarrow> location_query \<Rightarrow> location_row list" where
  "sql_locations store q =
     (let es = filter (location_where q) store
      in map location_row_of (if l_limit q < 0 then es else take (nat (l_limit q)) es))"

subsection \<open>\<^verbatim>\<open>pitcher_pitches\<close>\<close>

record pitch_location =
  loc_plate_x :: "rat option"
  loc_plate_z :: "rat option"
  loc_pitch_type :: "string option"
  loc_description :: "string option"
  loc_outcome :: "string option"

record pitches_response =
  pr_pitcher_id :: int
  pr_balls :: int
  pr_strikes :: int
  pr_batter_hand :: "string option"
  avg_sz_top :: "rat option"
  avg_sz_bot :: "rat option"
  pitches :: "pitch_location list"

text \<open>The loop over the rows with its three lists \<^verbatim>\<open>pitches\<close>, \<^verbatim>\<open>sz_tops\<close> and
  \<^verbatim>\<open>sz_bots\<close>.\<close>

fun locations_loop ::
  "location_row list \<Rightarrow> pitch_location list \<times> rat list \<times> rat list \<Rightarrow>
   pitch_location list \<times> rat list \<times> rat list" where
  "locations_loop [] acc = acc"
| "locations_loop ((px, pz, zt, zb, pt, descr, outc) # rows) (ps, sz_tops, sz_bots) =
     locations_loop rows
       (ps @ [\<lparr>loc_plate_x = px, loc_plate_z = pz, loc_pitch_type = pt,
               loc_description = descr, loc_outcome = outc\<rparr>],
        (case zt of None \<Rightarrow> sz_tops | Some v \<Rightarrow> sz_tops @ [v]),
        (case zb of None \<Rightarrow> sz_bots | Some v \<Rightarrow> sz_bots @ [v]))"

text \<open>\<^verbatim>\<open>sum(xs)\<close> adds the floats from left to right, starting from the int 0, and
  \<^verbatim>\<open>s / n\<close> of a float by an int raises \<^verbatim>\<open>ZeroDivisionError\<close> when \<open>n\<close> is 0.
  (From CPython 3.12 on \<^verbatim>\<open>sum\<close> compensates the rounding errors of the additions, which
  can change the last bit of a sum that is not exact.)\<close>

definition py_sum :: "rat list \<Rightarrow> rat" where
  "py_sum xs = foldl float_add 0 xs"

definition float_div_int :: "rat \<Rightarrow> int \<Rightarrow> py_error + rat" where
  "float_div_int x n = (if n = 0 then Inl ZeroDivisionError else Inr (fl (x / of_int n)))"

text \<open>\<^verbatim>\<open>sum(xs) / len(xs) if xs else None\<close>.\<close>

definition avg_or_none :: "rat list \<Rightarrow> py_error + rat option" where
  "avg_or_none xs =
     (if xs \<noteq> []
      then (case float_div_int (py_sum xs) (int (length xs)) of
              Inl e \<Rightarrow> Inl e | Inr v \<Rightarrow> Inr (Some v))
      else Inr None)"

definition pitcher_pitches ::
  "(location_query \<Rightarrow> location_row list) \<Rightarrow> int \<Rightarrow> int \<Rightarrow> int \<Rightarrow> string option \<Rightarrow> int \<Rightarrow>
   location_query list \<times> (py_error + pitches_response)" where
  "pitcher_pitches db pid b s hand row_limit =
     (let q = \<lparr>l_pitcher = pid, l_balls = b, l_strikes = s, l_hand = hand_clause hand,
               l_limit = row_limit\<rparr>;
          rows = db q;
          (ps, sz_tops, sz_bots) = locations_loop rows ([], [], [])
      in ([q],
          case avg_or_none sz_tops of
            Inl e \<Rightarrow> Inl e
          | Inr avg_top \<Rightarrow>
              (case avg_or_none sz_bots of
                 Inl e \<Rightarrow> Inl e
               | Inr avg_bot \<Rightarrow>
                   Inr \<lparr>pr_pitcher_id = pid, pr_balls = b, pr_strikes = s,
                        pr_batter_hand = hand, avg_sz_top = avg_top, avg_sz_bot = avg_bot,
                        pitches = ps\<rparr>)))"

subsection \<open>The request boundary of \<^verbatim>\<open>pitcher_pitches\<close>\<close>

text \<open>
  The parameters are declared with FastAPI's \<^verbatim>\<open>Query\<close>: a default (\<^verbatim>\<open>...\<close> marks a
  required parameter), the bounds \<^verbatim>\<open>ge\<close> and \<^verbatim>\<open>le\<close>, and further keyword arguments.
  FastAPI validates a value that is given against the bounds \<^verbatim>\<open>ge\<close> and \<^verbatim>\<open>le\<close> and
  answers 422 when it violates one; a keyword argument that \<^verbatim>\<open>Query\<close> does not know is
  kept as extra JSON schema data and constrains nothing. The declarations of \<^verbatim>\<open>balls\<close>
  and \<^verbatim>\<open>strikes\<close> pass \<^verbatim>\<open>ge0=0\<close>, not \<^verbatim>\<open>ge=0\<close>.
\<close>

datatype 'a param_default = Required | Default 'a

record int_param =
  p_default :: "int param_default"
  p_ge :: "int option"
  p_le :: "int option"
  p_extra :: "(string \<times> int) list"

definition balls_param :: int_param where
  "balls_param = \<lparr>p_default = Required, p_ge = None, p_le = Some 3, p_extra = [(''ge0'', 0)]\<rparr>"

definition strikes_param :: int_param where
  "strikes_param = \<lparr>p_default = Required, p_ge = None, p_le = Some 2, p_extra = [(''ge0'', 0)]\<rparr>"

definition limit_param :: int_param where
  "limit_param = \<lparr>p_default = Default 500, p_ge = Some 1, p_le = Some 2000, p_extra = []\<rparr>"

datatype rejection = Missing string | OutOfRange string int

definition validate_int :: "string \<Rightarrow> int_param \<Rightarrow> int option \<Rightarrow> rejection + int" where
  "validate_int name p given =
     (case given of
        None \<Rightarrow> (case p_default p of Required \<Rightarrow> Inl (Missing name) | Default d \<Rightarrow> Inr d)
      | Some v \<Rightarrow>
          if (case p_ge p of None \<Rightarrow> False | Some lo \<Rightarrow> v < lo) \<or>
             (case p_le p of None \<Rightarrow> False | Some hi \<Rightarrow> hi < v)
          then Inl (OutOfRange name v) else Inr v)"

text \<open>The operation as a client reaches it: the parameters as given in the query string
  (\<open>None\<close> when omitted), validated before the body of \<^verbatim>\<open>pitcher_pitches\<close> runs.\<close>

definition pitches_operation ::
  "(location_query \<Rightarrow> location_row list) \<Rightarrow> int \<Rightarrow> int option \<Rightarrow> int option \<Rightarrow>
   string option \<Rightarrow> int option \<Rightarrow>
   rejection + (location_query list \<times> (py_error + pitches_response))" where
  "pitches_operation db pid b s hand row_limit =
     (case validate_int ''balls'' balls_param b of
        Inl r \<Rightarrow> Inl r
      | Inr b' \<Rightarrow>
          (case validate_int ''strikes'' strikes_param s of
             Inl r \<Rightarrow> Inl r
           | Inr s' \<Rightarrow>
               (case validate_int ''limit'' limit_param row_limit of
                  Inl r \<Rightarrow> Inl r
                | Inr row_limit' \<Rightarrow> Inr (pitcher_pitches db pid b' s' hand row_limit'))))"

subsection \<open>Notions used to state the properties\<close>

text \<open>The arithmetic mean as float arithmetic computes it: the sum, divided by the
  number of values.\<close>

definition float_mean :: "rat list \<Rightarrow> rat" where
  "float_mean xs = fl (py_sum xs / of_nat (length xs))"

text \<open>The additions of \<^verbatim>\<open>sum\<close> from the accumulator \<open>acc\<close> are all exact.\<close>

fun exact_sums :: "rat \<Rightarrow> rat list \<Rightarrow> bool" where
  "exact_sums acc [] = True"
| "exact_sums acc (x # xs) = (fl (acc + x) = acc + x \<and> exact_sums (acc + x) xs)"

definition location_of :: "location_row \<Rightarrow> pitch_location" where
  "location_of r =
     (case r of (px, pz, zt, zb, pt, descr, outc) \<Rightarrow>
        \<lparr>loc_plate_x = px, loc_plate_z = pz, loc_pitch_type = pt, loc_description = descr,
         loc_outcome = outc\<rparr>)"

definition row_sz_top :: "location_row \<Rightarrow> rat option" where
  "row_sz_top r = (case r of (px, pz, zt, zb, pt, descr, outc) \<Rightarrow> zt)"

definition row_sz_bot :: "location_row \<Rightarrow> rat option" where
  "row_sz_bot r = (case r of (px, pz, zt, zb, pt, descr, outc) \<Rightarrow> zb)"

section \<open>Ingestion\<close>

subsection \<open>The pitcher registry\<close>

text \<open>One row of the \<^verbatim>\<open>pitchers\<close> table, with the columns of the statements in
  \<^verbatim>\<open>get_or_create_pitcher\<close> and \<^verbatim>\<open>list_pitchers\<close>.\<close>

record pitcher =
  p_id :: int
  p_mlb_id :: int
  p_name :: string
  p_throws_hand :: string

record database =
  db_pitchers :: "pitcher list"
  db_pitches :: "pitch_event list"

text \<open>\<^verbatim>\<open>SELECT id FROM pitchers WHERE mlb_id = ?\<close> followed by \<^verbatim>\<open>fetchone()\<close>: the first
  matching row of the scan, if there is one.\<close>

definition select_pitcher_id :: "pitcher list \<Rightarrow> int \<Rightarrow> int option" where
  "select_pitcher_id tbl mlb_id =
     (case filter (\<lambda>p. p_mlb_id p = mlb_id) tbl of [] \<Rightarrow> None | p # _ \<Rightarrow> Some (p_id p))"

text \<open>Modelled from the spec: the schema (\<^verbatim>\<open>db/schema.sql\<close>) is not among the sources.
  The specification says that a new pitcher record gets a newly assigned internal id; the
  model assigns it as SQLite assigns row ids, one more than the largest id in the table and
  1 in an empty table, and assumes no constraint of the schema rejects an insert.\<close>

definition lastrowid :: "pitcher list \<Rightarrow> int" where
  "lastrowid tbl = (case map p_id tbl of [] \<Rightarrow> 1 | i # ids \<Rightarrow> fold max ids i + 1)"

definition get_or_create_pitcher ::
  "database \<Rightarrow> int \<Rightarrow> string \<Rightarrow> string \<Rightarrow> int \<times> database" where
  "get_or_create_pitcher db mlb_id name throws_hand =
     (case select_pitcher_id (db_pitchers db) mlb_id of
        Some i \<Rightarrow> (i, db)
      | None \<Rightarrow>
          (let i = lastrowid (db_pitchers db)
           in (i, db\<lparr>db_pitchers := db_pitchers db @
                      [\<lparr>p_id = i, p_mlb_id = mlb_id, p_name = name,
                        p_throws_hand = throws_hand\<rparr>]\<rparr>)))"

subsection \<open>Parsing cells\<close>

text \<open>Strings are lists of bytes (UTF-8); the parsers below treat the ASCII characters as
  Python does and no character beyond ASCII as a space or a digit.\<close>

definition is_space :: "char \<Rightarrow> bool" where
  "is_space c =
     (c \<in> set [CHR 0x09, CHR 0x0A, CHR 0x0B, CHR 0x0C, CHR 0x0D, CHR 0x1C, CHR 0x1D, CHR 0x1E,
                CHR 0x1F, CHR 0x20])"

definition strip :: "string \<Rightarrow> string" where
  "strip s = rev (dropWhile is_space (rev (dropWhile is_space s)))"

definition is_digit :: "char \<Rightarrow> bool" where
  "is_digit c = (c \<in> set ''0123456789'')"

definition digit_val :: "char \<Rightarrow> int" where
  "digit_val c = int (of_char c) - 48"

text \<open>The digits of a decimal literal after the first one; a single underscore may stand
  between two digits.\<close>

fun parse_digits :: "string \<Rightarrow> int \<Rightarrow> int option" where
  "parse_digits [] acc = Some acc"
| "parse_digits (c # cs) acc =
     (if is_digit c then parse_digits cs (10 * acc + digit_val c)
      else if c = CHR ''_''
      then (case cs of
              [] \<Rightarrow> None
            | d # ds \<Rightarrow> if is_digit d then parse_digits ds (10 * acc + digit_val d) else None)
      else None)"

text \<open>\<^verbatim>\<open>int(s)\<close> of a string: \<open>None\<close> where Python raises \<^verbatim>\<open>ValueError\<close>.\<close>

definition py_int :: "string \<Rightarrow> int option" where
  "py_int s =
     (let t = strip s;
          (negative, body) =
            (case t of
               [] \<Rightarrow> (False, [])
             | c # cs \<Rightarrow> if c = CHR ''-'' then (True, cs)
                         else if c = CHR ''+'' then (False, cs) else (False, t))
      in case body of
           [] \<Rightarrow> None
         | c # cs \<Rightarrow>
             if is_digit c
             then map_option (\<lambda>v. if negative then - v else v) (parse_digits cs (digit_val c))
             else None)"

text \<open>\<^verbatim>\<open>to_int\<close>: \<^verbatim>\<open>int(None)\<close> raises \<^verbatim>\<open>TypeError\<close>, which is caught as well.\<close>

definition to_int :: "string option \<Rightarrow> int option" where
  "to_int val = (case val of None \<Rightarrow> None | Some s \<Rightarrow> py_int s)"

text \<open>\<^verbatim>\<open>to_float\<close>. Python's \<^verbatim>\<open>float(s)\<close> is the parameter \<open>py_float\<close>: the float a
  string denotes (a finite one, in this model), \<open>None\<close> where \<^verbatim>\<open>float\<close> raises
  \<^verbatim>\<open>ValueError\<close>.\<close>

definition to_float :: "(string \<Rightarrow> rat option) \<Rightarrow> string option \<Rightarrow> rat option" where
  "to_float py_float val =
     (case val of None \<Rightarrow> None | Some s \<Rightarrow> if s = [] then None else py_float s)"

text \<open>\<^verbatim>\<open>sanitize_header\<close>: the byte order mark U+FEFF is the bytes EF BB BF.\<close>

definition bom :: string where
  "bom = [CHR 0xEF, CHR 0xBB, CHR 0xBF]"

fun remove_bom :: "string \<Rightarrow> string" where
  "remove_bom (a # b # c # s) =
     (if [a, b, c] = bom then remove_bom s else a # remove_bom (b # c # s))"
| "remove_bom s = s"

definition strip_quotes :: "string \<Rightarrow> string" where
  "strip_quotes s =
     rev (dropWhile (\<lambda>c. c = CHR 0x22) (rev (dropWhile (\<lambda>c. c = CHR 0x22) s)))"

definition sanitize_header :: "string \<Rightarrow> string" where
  "sanitize_header name = strip_quotes (strip (remove_bom name))"

subsection \<open>Source files\<close>

text \<open>
  A row as \<^verbatim>\<open>csv.DictReader\<close> yields it, seen through \<^verbatim>\<open>row.get\<close>: the cell under a
  field name, \<open>None\<close> for a name that is no field and for a cell that a short row lacks.
  Rows with more cells than the header has fields are not modelled.

  A file is what reading it yields: the field names of the header, or the error that
  opening the file or decoding its first line raises; then, for each step of the
  iteration over the reader, a row or the error that the step raises.
\<close>

type_synonym csv_row = "string \<Rightarrow> string option"

record csv_file =
  file_name :: string
  fieldnames :: "py_error + string list"
  records :: "(py_error + csv_row) list"

text \<open>The lines that the ingestion prints.\<close>

datatype message =
    Loading string
  | NoHeaderFound string
  | Headers "string list"
  | RequiredColumnsMissing string
  | Finished string nat
  | DirectoryNotFound
  | NoCsvFiles
  | Found nat
  | AllIngested

subsection \<open>\<^verbatim>\<open>process_csv\<close>\<close>

text \<open>\<^verbatim>\<open>header_map\<close>: a later field name replaces an earlier one with the same
  sanitized name.\<close>

definition header_map :: "string list \<Rightarrow> string \<Rightarrow> string option" where
  "header_map raw_headers = map_of (rev (map (\<lambda>fn. (sanitize_header fn, fn)) raw_headers))"

definition col :: "(string \<Rightarrow> string option) \<Rightarrow> string \<Rightarrow> string option \<Rightarrow> string option" where
  "col hm name fallback =
     (case hm name of
        Some fn \<Rightarrow> Some fn
      | None \<Rightarrow>
          (case fallback of
             None \<Rightarrow> None
           | Some fb \<Rightarrow> if fb \<noteq> [] then hm fb else None))"

record columns =
  pitch_type_col :: "string option"
  pitcher_col :: "string option"
  player_name_col :: "string option"
  p_throws_col :: "string option"
  game_date_col :: "string option"
  stand_col :: "string option"
  balls_col :: "string option"
  strikes_col :: "string option"
  release_speed_col :: "string option"
  plate_x_col :: "string option"
  plate_z_col :: "string option"
  sz_top_col :: "string option"
  sz_bot_col :: "string option"
  inning_col :: "string option"
  inning_tb_col :: "string option"
  description_col :: "string option"
  events_col :: "string option"

definition resolve_columns :: "string list \<Rightarrow> columns" where
  "resolve_columns raw_headers =
     (let hm = header_map raw_headers
      in \<lparr>pitch_type_col = col hm ''pitch_type'' (Some ''pitch_name''),
          pitcher_col = col hm ''pitcher'' None,
          player_name_col = col hm ''player_name'' None,
          p_throws_col = col hm ''p_throws'' None,
          game_date_col = col hm ''game_date'' None,
          stand_col = col hm ''stand'' None,
          balls_col = col hm ''balls'' None,
          strikes_col = col hm ''strikes'' None,
          release_speed_col = col hm ''release_speed'' None,
          plate_x_col = col hm ''plate_x'' None,
          plate_z_col = col hm ''plate_z'' None,
          sz_top_col = col hm ''sz_top'' None,
          sz_bot_col = col hm ''sz_bot'' None,
          inning_col = col hm ''inning'' None,
          inning_tb_col = col hm ''inning_topbot'' None,
          description_col = col hm ''description'' None,
          events_col = col hm ''events'' None\<rparr>)"

text \<open>Truth of an optional string: \<^verbatim>\<open>None\<close> and \<^verbatim>\<open>""\<close> are false.\<close>

definition truthy :: "string option \<Rightarrow> bool" where
  "truthy v = (case v of None \<Rightarrow> False | Some s \<Rightarrow> s \<noteq> [])"

text \<open>\<^verbatim>\<open>row.get(c)\<close> for a column \<open>c\<close> that may be \<^verbatim>\<open>None\<close>.\<close>

definition row_get :: "csv_row \<Rightarrow> string option \<Rightarrow> string option" where
  "row_get row c = (case c of None \<Rightarrow> None | Some k \<Rightarrow> row k)"

text \<open>\<^verbatim>\<open>v or d\<close> and \<^verbatim>\<open>v or None\<close>.\<close>

definition or_default :: "string option \<Rightarrow> string \<Rightarrow> string" where
  "or_default v d = (case v of None \<Rightarrow> d | Some s \<Rightarrow> if s \<noteq> [] then s else d)"

definition or_none :: "string option \<Rightarrow> string option" where
  "or_none v = (if truthy v then v else None)"

definition starts_with_letter :: "char \<Rightarrow> string \<Rightarrow> bool" where
  "starts_with_letter l t = (case t of [] \<Rightarrow> False | c # _ \<Rightarrow> ascii_lower c = l)"

text \<open>The half inning: \<^verbatim>\<open>raw_tb.strip().lower()\<close> starts with \<open>t\<close> or with \<open>b\<close>.\<close>

definition topbot :: "string option \<Rightarrow> string option" where
  "topbot raw_tb =
     (case raw_tb of
        None \<Rightarrow> None
      | Some s \<Rightarrow>
          if s \<noteq> []
          then (if starts_with_letter CHR ''t'' (strip s) then Some ''Top''
                else if starts_with_letter CHR ''b'' (strip s) then Some ''Bottom''
                else None)
          else None)"

text \<open>The body of the loop over the rows: an early \<open>db\<close> is a \<^verbatim>\<open>continue\<close>.\<close>

definition process_row ::
  "(string \<Rightarrow> rat option) \<Rightarrow> columns \<Rightarrow> csv_row \<Rightarrow> database \<Rightarrow> database" where
  "process_row py_float cols row db =
     (let pitcher_raw = row_get row (pitcher_col cols)
      in if \<not> truthy pitcher_raw then db
         else case to_int pitcher_raw of
           None \<Rightarrow> db
         | Some pitcher_mlb_id \<Rightarrow>
             (let pitcher_name = or_default (row_get row (player_name_col cols)) ''Unknown Pitcher'';
                  throws_hand = or_default (row_get row (p_throws_col cols)) '''';
                  (pid, db) = get_or_create_pitcher db pitcher_mlb_id pitcher_name throws_hand;
                  date = (if truthy (game_date_col cols)
                          then row_get row (game_date_col cols) else None);
                  inn = (if truthy (inning_col cols)
                         then to_int (row_get row (inning_col cols)) else None);
                  inning_topbot = topbot (row_get row (inning_tb_col cols));
                  hand = or_none (row_get row (stand_col cols));
                  b = (if truthy (balls_col cols)
                       then to_int (row_get row (balls_col cols)) else None);
                  s = (if truthy (strikes_col cols)
                       then to_int (row_get row (strikes_col cols)) else None);
                  pt = row_get row (pitch_type_col cols)
              in if \<not> truthy pt then db
                 else db\<lparr>db_pitches := db_pitches db @
                   [\<lparr>pitcher_id = pid, game_date = date, inning = inn,
                     top_bottom = inning_topbot, batter_hand = hand, balls = b, strikes = s,
                     pitch_type = pt,
                     velocity = to_float py_float (row_get row (release_speed_col cols)),
                     plate_x = to_float py_float (row_get row (plate_x_col cols)),
                     plate_z = to_float py_float (row_get row (plate_z_col cols)),
                     sz_top = to_float py_float (row_get row (sz_top_col cols)),
                     sz_bot = to_float py_float (row_get row (sz_bot_col cols)),
                     description = Some (or_default (row_get row (description_col cols)) ''''),
                     outcome = or_none (row_get row (events_col cols)),
                     runs_value = None\<rparr>]\<rparr>))"

text \<open>The loop \<^verbatim>\<open>for row in reader\<close> with its counter \<^verbatim>\<open>row_count\<close>: an error raised by
  the reader ends it.\<close>

fun process_rows ::
  "(string \<Rightarrow> rat option) \<Rightarrow> columns \<Rightarrow> (py_error + csv_row) list \<Rightarrow> nat \<Rightarrow> database \<Rightarrow>
   database \<times> nat \<times> py_error option" where
  "process_rows py_float cols [] row_count db = (db, row_count, None)"
| "process_rows py_float cols (Inl e # rest) row_count db = (db, row_count, Some e)"
| "process_rows py_float cols (Inr row # rest) row_count db =
     process_rows py_float cols rest (row_count + 1) (process_row py_float cols row db)"

text \<open>\<^verbatim>\<open>process_csv\<close> returns the state of the connection, the printed lines and the
  error that it raises, if any.\<close>

definition process_csv ::
  "(string \<Rightarrow> rat option) \<Rightarrow> csv_file \<Rightarrow> database \<Rightarrow>
   database \<times> message list \<times> py_error option" where
  "process_csv py_float file db =
     (case fieldnames file of
        Inl e \<Rightarrow> (db, [Loading (file_name file)], Some e)
      | Inr raw_headers \<Rightarrow>
          if raw_headers = []
          then (db, [Loading (file_name file), NoHeaderFound (file_name file)], None)
          else
            (let cols = resolve_columns raw_headers
             in if \<not> truthy (pitcher_col cols) \<or> \<not> truthy (pitch_type_col cols)
                then (db, [Loading (file_name file), Headers (take 10 raw_headers),
                           RequiredColumnsMissing (file_name file)], None)
                else
                  (case process_rows py_float cols (records file) 0 db of
                     (db', row_count, Some e) \<Rightarrow>
                       (db', [Loading (file_name file), Headers (take 10 raw_headers)], Some e)
                   | (db', row_count, None) \<Rightarrow>
                       (db', [Loading (file_name file), Headers (take 10 raw_headers),
                              Finished (file_name file) row_count], None))))"

subsection \<open>\<^verbatim>\<open>main\<close>\<close>

text \<open>The loop over the files. Nothing catches an error of \<^verbatim>\<open>process_csv\<close>: it ends
  the loop.\<close>

fun process_files ::
  "(string \<Rightarrow> rat option) \<Rightarrow> csv_file list \<Rightarrow> database \<Rightarrow>
   database \<times> message list \<times> py_error option" where
  "process_files py_float [] db = (db, [], None)"
| "process_files py_float (f # fs) db =
     (case process_csv py_float f db of
        (db', out, Some e) \<Rightarrow> (db', out, Some e)
      | (db', out, None) \<Rightarrow>
          (case process_files py_float fs db' of (db'', out', err) \<Rightarrow> (db'', out @ out', err)))"

text \<open>
  \<^verbatim>\<open>main\<close>. The directory is \<open>None\<close> when it does not exist, and the list of its CSV
  files otherwise. The inserts run in the transaction that the \<^verbatim>\<open>sqlite3\<close> module opens
  before the first one; \<^verbatim>\<open>conn.commit()\<close> after the loop is the only commit. The result
  is the committed state of the database after the run, the printed lines, and the error
  that ends the run, if any: an error leaves the loop and \<^verbatim>\<open>main\<close> before the commit,
  so the committed state is the one before the run.
\<close>

definition main ::
  "(string \<Rightarrow> rat option) \<Rightarrow> csv_file list option \<Rightarrow> database \<Rightarrow>
   database \<times> message list \<times> py_error option" where
  "main py_float csv_dir committed =
     (case csv_dir of
        None \<Rightarrow> (committed, [DirectoryNotFound], None)
      | Some csv_files \<Rightarrow>
          if csv_files = [] then (committed, [NoCsvFiles], None)
          else
            (case process_files py_float csv_files committed of
               (db, out, Some e) \<Rightarrow> (committed, Found (length csv_files) # out, Some e)
             | (db, out, None) \<Rightarrow>
                 (db, Found (length csv_files) # out @ [AllIngested], None)))"

subsection \<open>Notions used to state the properties\<close>

text \<open>A sequence of calls of \<^verbatim>\<open>get_or_create_pitcher\<close>, each with an external id, a
  candidate name and a candidate hand: the ids returned and the final state.\<close>

fun resolve_all :: "(int \<times> string \<times> string) list \<Rightarrow> database \<Rightarrow> int list \<times> database" where
  "resolve_all [] db = ([], db)"
| "resolve_all ((mlb_id, name, throws_hand) # calls) db =
     (case get_or_create_pitcher db mlb_id name throws_hand of
        (i, db') \<Rightarrow> (case resolve_all calls db' of (ids, db'') \<Rightarrow> (i # ids, db'')))"

text \<open>The number of pitcher records with a given external id.\<close>

definition records_with :: "int \<Rightarrow> database \<Rightarrow> nat" where
  "records_with mlb_id db = length (filter (\<lambda>p. p_mlb_id p = mlb_id) (db_pitchers db))"

text \<open>A file that \<^verbatim>\<open>process_csv\<close> skips: no header, or no column for the pitcher or for
  the pitch type.\<close>

definition skipped_file :: "csv_file \<Rightarrow> bool" where
  "skipped_file f =
     (case fieldnames f of
        Inl e \<Rightarrow> False
      | Inr hs \<Rightarrow> hs = [] \<or> \<not> truthy (pitcher_col (resolve_columns hs)) \<or>
                  \<not> truthy (pitch_type_col (resolve_columns hs)))"

text \<open>The error that reading a file raises, if any: at the header, or at the first step of
  the iteration that fails, in a file that is not skipped.\<close>

definition file_error :: "csv_file \<Rightarrow> py_error option" where
  "file_error f =
     (case fieldnames f of
        Inl e \<Rightarrow> Some e
      | Inr hs \<Rightarrow>
          if skipped_file f then None
          else (case filter isl (records f) of [] \<Rightarrow> None | r # _ \<Rightarrow> Some (projl r)))"



section \<open>Example data\<close>

text \<open>A small store for the examples: pitcher 1 at one ball and two strikes. Against
  left-handed batters there are two curveballs, both swinging strikes; against right-handed
  batters four curveballs, one of them a swinging strike, and five four-seam fastballs, one
  of them hit for a home run. No pitch type reaches five pitches against left-handed
  batters; with all hands pooled the curveball has six pitches and three swinging strikes.\<close>

definition example_pitch :: "string \<Rightarrow> string \<Rightarrow> string \<Rightarrow> string option \<Rightarrow> pitch_event" where
  "example_pitch hand pt descr outc =
     \<lparr>pitcher_id = 1, game_date = Some ''2024-04-01'', inning = Some 1,
      top_bottom = Some ''Top'', batter_hand = Some hand, balls = Some 1, strikes = Some 2,
      pitch_type = Some pt, velocity = None, plate_x = None, plate_z = None, sz_top = None,
      sz_bot = None, description = Some descr, outcome = outc, runs_value = None\<rparr>"

definition example_store :: "pitch_event list" where
  "example_store =
     replicate 2 (example_pitch ''L'' ''CU'' ''swinging_strike'' None) @
     [example_pitch ''R'' ''CU'' ''swinging_strike_blocked'' None] @
     replicate 3 (example_pitch ''R'' ''CU'' ''ball'' None) @
     [example_pitch ''R'' ''FF'' ''hit_into_play'' (Some ''home_run'')] @
     replicate 4 (example_pitch ''R'' ''FF'' ''called_strike'' None)"

definition example_request :: "int \<Rightarrow> string \<Rightarrow> recommendation_request" where
  "example_request b hand =
     \<lparr>req_pitcher_id = 1, req_balls = b, req_strikes = 2, req_batter_hand = hand,
      req_last_pitch_type = None\<rparr>"

text \<open>A store with located pitches of pitcher 1 at no balls and no strikes: two with plate
  coordinates, of which one lacks the lower bound of the strike zone, and one without
  coordinates.\<close>

definition located_pitch ::
  "string \<Rightarrow> rat option \<Rightarrow> rat option \<Rightarrow> rat option \<Rightarrow> rat option \<Rightarrow> pitch_event" where
  "located_pitch hand x z zt zb =
     \<lparr>pitcher_id = 1, game_date = Some ''2024-04-01'', inning = Some 1,
      top_bottom = Some ''Top'', batter_hand = Some hand, balls = Some 0, strikes = Some 0,
      pitch_type = Some ''FF'', velocity = None, plate_x = x, plate_z = z, sz_top = zt,
      sz_bot = zb, description = Some ''ball'', outcome = None, runs_value = None\<rparr>"

definition located_store :: "pitch_event list" where
  "located_store =
     [located_pitch ''R'' (Some (1/2)) (Some (5/2)) (Some (7/2)) (Some (3/2)),
      located_pitch ''L'' (Some (- 1/4)) (Some 2) (Some (13/4)) None,
      located_pitch ''R'' None None (Some 3) (Some 1)]"

text \<open>Source files for the examples: a file with one complete row, a file whose only row
  has a pitcher but an empty pitch type, a file that cannot be decoded, a file whose second
  row cannot be parsed, an empty file and a file without a pitcher column.\<close>

definition empty_db :: database where
  "empty_db = \<lparr>db_pitchers = [], db_pitches = []\<rparr>"

definition no_floats :: "string \<Rightarrow> rat option" where
  "no_floats s = None"

definition good_row :: csv_row where
  "good_row =
     map_of [(''pitcher'', ''543037''), (''pitch_type'', ''FF''),
             (''player_name'', ''Cole, Gerrit''), (''balls'', ''1''), (''strikes'', ''2''),
             (''stand'', ''R''), (''description'', ''swinging_strike'')]"

definition blank_type_row :: csv_row where
  "blank_type_row =
     map_of [(''pitcher'', ''605483''), (''pitch_type'', ''''),
             (''player_name'', ''Snell, Blake''), (''balls'', ''0''), (''strikes'', ''0''),
             (''stand'', ''L''), (''description'', ''ball'')]"

definition example_header :: "string list" where
  "example_header =
     [''pitch_type'', ''pitcher'', ''player_name'', ''balls'', ''strikes'', ''stand'',
      ''description'']"

definition good_file :: csv_file where
  "good_file =
     \<lparr>file_name = ''a.csv'', fieldnames = Inr example_header, records = [Inr good_row]\<rparr>"

definition blank_type_file :: csv_file where
  "blank_type_file =
     \<lparr>file_name = ''b.csv'', fieldnames = Inr example_header, records = [Inr blank_type_row]\<rparr>"

definition undecodable_file :: csv_file where
  "undecodable_file =
     \<lparr>file_name = ''c.csv'', fieldnames = Inl UnicodeDecodeError, records = []\<rparr>"

definition broken_file :: csv_file where
  "broken_file =
     \<lparr>file_name = ''d.csv'', fieldnames = Inr example_header,
      records = [Inr good_row, Inl CsvError, Inr good_row]\<rparr>"

definition headerless_file :: csv_file where
  "headerless_file = \<lparr>file_name = ''e.csv'', fieldnames = Inr [], records = []\<rparr>"

definition pitcherless_file :: csv_file where
  "pitcherless_file =
     \<lparr>file_name = ''f.csv'', fieldnames = Inr [''pitch_type'', ''balls''],
      records = [Inr good_row]\<rparr>"

definition no_pitcher_row :: csv_row where
  "no_pitcher_row = map_of [(''pitcher'', ''''), (''pitch_type'', ''SL'')]"

definition bad_pitcher_row :: csv_row where
  "bad_pitcher_row = map_of [(''pitcher'', ''12a''), (''pitch_type'', ''SL'')]"

section \<open>Properties of the rounding\<close>

lemma bitlen_powi_bounds:
  assumes "0 < (n::int)"
  shows "(2::rat) powi (bitlen n - 1) \<le> of_int n" and "of_int n < (2::rat) powi (bitlen n)"
proof -
  from bitlen_bounds[OF assms] have a: "2 ^ nat (bitlen n - 1) \<le> n" and b: "n < 2 ^ nat (bitlen n)"
    by auto
  have ge1: "1 \<le> bitlen n" using assms by (auto simp: bitlen_alt_def)
  have "(of_int (2 ^ nat (bitlen n - 1)) :: rat) \<le> of_int n" using a by (simp only: of_int_le_iff)
  then show "(2::rat) powi (bitlen n - 1) \<le> of_int n"
    using ge1 by (simp add: power_int_def)
  have "(of_int n :: rat) < of_int (2 ^ nat (bitlen n))" using b by (simp only: of_int_less_iff)
  then show "of_int n < (2::rat) powi (bitlen n)"
    using ge1 by (simp add: power_int_def)
qed

lemma binary_exponent_bounds:
  assumes "0 < q"
  shows "2 powi (binary_exponent q) \<le> q" and "q < 2 powi (binary_exponent q + 1)"
proof -
  have "2 powi (binary_exponent q) \<le> q \<and> q < 2 powi (binary_exponent q + 1)"
  proof (cases "1 \<le> q")
    case True
    then have pos: "0 < \<lfloor>q\<rfloor>" by simp
    have e: "binary_exponent q = bitlen \<lfloor>q\<rfloor> - 1" using True by (simp add: binary_exponent_def)
    have "2 powi (bitlen \<lfloor>q\<rfloor> - 1) \<le> (of_int \<lfloor>q\<rfloor> :: rat)" by (rule bitlen_powi_bounds(1)[OF pos])
    also have "\<dots> \<le> q" by simp
    finally have lo: "2 powi (binary_exponent q) \<le> q" by (simp add: e)
    have "\<lfloor>q\<rfloor> + 1 \<le> 2 ^ nat (bitlen \<lfloor>q\<rfloor>)" using bitlen_bounds[OF pos] by simp
    then have "(of_int (\<lfloor>q\<rfloor> + 1) :: rat) \<le> of_int (2 ^ nat (bitlen \<lfloor>q\<rfloor>))" by (simp only: of_int_le_iff)
    moreover have "q < of_int (\<lfloor>q\<rfloor> + 1)" by linarith
    ultimately have "q < 2 ^ nat (bitlen \<lfloor>q\<rfloor>)" by simp
    then have "q < 2 powi (bitlen \<lfloor>q\<rfloor>)" by (simp add: power_int_def bitlen_nonneg)
    then have hi: "q < 2 powi (binary_exponent q + 1)" by (simp add: e)
    from lo hi show ?thesis by simp
  next
    case False
    define r where "r = 1 / q"
    have r1: "1 < r" using False assms by (simp add: r_def)
    then have pos: "0 < \<lfloor>r\<rfloor>" by simp
    define m where "m = bitlen \<lfloor>r\<rfloor> - 1"
    have "2 powi m \<le> (of_int \<lfloor>r\<rfloor> :: rat)" unfolding m_def by (rule bitlen_powi_bounds(1)[OF pos])
    also have "\<dots> \<le> r" by simp
    finally have lo: "2 powi m \<le> r" .
    have "\<lfloor>r\<rfloor> + 1 \<le> 2 ^ nat (bitlen \<lfloor>r\<rfloor>)" using bitlen_bounds[OF pos] by simp
    then have "(of_int (\<lfloor>r\<rfloor> + 1) :: rat) \<le> of_int (2 ^ nat (bitlen \<lfloor>r\<rfloor>))" by (simp only: of_int_le_iff)
    moreover have "r < of_int (\<lfloor>r\<rfloor> + 1)" by linarith
    ultimately have "r < 2 ^ nat (bitlen \<lfloor>r\<rfloor>)" by simp
    then have "r < 2 powi (bitlen \<lfloor>r\<rfloor>)" by (simp add: power_int_def bitlen_nonneg)
    then have hi: "r < 2 powi (m + 1)" by (simp add: m_def)
    have q_hi: "q \<le> 2 powi (- m)"
    proof -
      have "1 / r \<le> 1 / (2 powi m)" using lo r1 by (intro divide_left_mono mult_pos_pos) auto
      then show ?thesis by (simp add: r_def power_int_minus_divide)
    qed
    have q_lo: "2 powi (- m - 1) < q"
    proof -
      have "1 / (2 powi (m + 1)) < 1 / r" using hi r1 by (intro divide_strict_left_mono mult_pos_pos) auto
      moreover have "- m - 1 = - (m + 1)" by simp
      ultimately show ?thesis by (simp only: r_def power_int_minus_divide) (use assms in simp)
    qed
    have e: "binary_exponent q = (if 2 powi (- m) \<le> q then - m else - m - 1)"
      using False by (simp add: binary_exponent_def m_def r_def Let_def)
    show ?thesis
    proof (cases "2 powi (- m) \<le> q")
      case True
      then have "q = 2 powi (- m)" using q_hi by simp
      moreover have "(2::rat) powi (- m) < 2 powi (- m + 1)" by (intro power_int_strict_increasing) auto
      ultimately show ?thesis using e True by simp
    next
      case F: False
      then have "q < 2 powi (- m)" by simp
      then show ?thesis using e F q_lo by simp
    qed
  qed
  then show "2 powi (binary_exponent q) \<le> q" and "q < 2 powi (binary_exponent q + 1)" by simp_all
qed


lemma round_half_even_of_int: "round_half_even (of_int n) = n"
  by (simp add: round_half_even_def)

lemma round_half_even_range: "\<lfloor>q\<rfloor> \<le> round_half_even q" "round_half_even q \<le> \<lfloor>q\<rfloor> + 1"
  by (simp_all add: round_half_even_def Let_def)

lemma round_half_even_mono:
  assumes "x \<le> y"
  shows "round_half_even x \<le> round_half_even y"
proof (cases "\<lfloor>x\<rfloor> = \<lfloor>y\<rfloor>")
  case True
  then have "x - of_int \<lfloor>x\<rfloor> \<le> y - of_int \<lfloor>y\<rfloor>" using assms by simp
  then show ?thesis using True by (auto simp: round_half_even_def Let_def)
next
  case False
  then have "\<lfloor>x\<rfloor> + 1 \<le> \<lfloor>y\<rfloor>" using floor_mono[OF assms] by simp
  then show ?thesis
    using round_half_even_range(2)[of x] round_half_even_range(1)[of y] by linarith
qed

lemma fl_0: "fl 0 = 0"
  by (simp add: fl_def)

lemma fl_minus: "fl (- q) = - fl q"
  by (simp add: fl_def Let_def)

lemma fl_pos_bounds:
  assumes "0 < q"
  shows "2 powi (binary_exponent q) \<le> fl q" and "fl q \<le> 2 powi (binary_exponent q + 1)"
proof -
  define e where "e = binary_exponent q"
  define u :: rat where "u = 2 powi (e - 52)"
  have u_pos: "0 < u" by (simp add: u_def)
  have fl_eq: "fl q = of_int (round_half_even (q / u)) * u"
    using assms by (simp add: fl_def e_def u_def Let_def)
  have lo_u: "2 powi e = 2 ^ 52 * u" 
    by (simp add: u_def power_int_diff)
  have hi_u: "2 powi (e + 1) = 2 ^ 53 * u"
    by (simp add: u_def power_int_diff power_int_add)
  have "2 ^ 52 * u \<le> q" using binary_exponent_bounds(1)[OF assms] by (simp add: e_def[symmetric] lo_u)
  then have "of_int (2 ^ 52) \<le> q / u" using u_pos by (simp add: pos_le_divide_eq)
  from round_half_even_mono[OF this] have "2 ^ 52 \<le> round_half_even (q / u)"
    by (simp only: round_half_even_of_int)
  then have "(of_int (2 ^ 52) :: rat) \<le> of_int (round_half_even (q / u))" by (simp only: of_int_le_iff)
  then have "2 ^ 52 * u \<le> of_int (round_half_even (q / u)) * u" using u_pos by simp
  then show "2 powi (binary_exponent q) \<le> fl q" by (simp only: fl_eq e_def[symmetric] lo_u)
  have "q \<le> 2 ^ 53 * u" using binary_exponent_bounds(2)[OF assms] by (simp add: e_def[symmetric] hi_u)
  then have "q / u \<le> of_int (2 ^ 53)" using u_pos by (simp add: pos_divide_le_eq)
  from round_half_even_mono[OF this] have "round_half_even (q / u) \<le> 2 ^ 53"
    by (simp only: round_half_even_of_int)
  then have "(of_int (round_half_even (q / u)) :: rat) \<le> of_int (2 ^ 53)" by (simp only: of_int_le_iff)
  then have "of_int (round_half_even (q / u)) * u \<le> 2 ^ 53 * u" using u_pos by simp
  then show "fl q \<le> 2 powi (binary_exponent q + 1)" by (simp only: fl_eq e_def[symmetric] hi_u)
qed

lemma fl_pos: "0 < q \<Longrightarrow> 0 < fl q"
  using fl_pos_bounds(1)[of q] zero_less_power_int[of "2::rat" "binary_exponent q"] by linarith

lemma fl_mono_pos:
  assumes "0 < x" "x \<le> y"
  shows "fl x \<le> fl y"
proof -
  have ypos: "0 < y" using assms by simp
  have "(2::rat) powi (binary_exponent x) < 2 powi (binary_exponent y + 1)"
    using binary_exponent_bounds(1)[OF assms(1)] binary_exponent_bounds(2)[OF ypos] assms(2) by linarith
  then have "binary_exponent x < binary_exponent y + 1"
    by (metis power_int_increasing[of _ _ "2::rat"] not_le one_le_numeral)
  then consider "binary_exponent x = binary_exponent y" | "binary_exponent x + 1 \<le> binary_exponent y"
    by linarith
  then show ?thesis
  proof cases
    case 1
    define u :: rat where "u = 2 powi (binary_exponent y - 52)"
    have u_pos: "0 < u" by (simp add: u_def)
    have "x / u \<le> y / u" using assms u_pos by (simp add: divide_right_mono)
    from round_half_even_mono[OF this]
    have "(of_int (round_half_even (x / u)) :: rat) \<le> of_int (round_half_even (y / u))" by simp
    then have "of_int (round_half_even (x / u)) * u \<le> of_int (round_half_even (y / u)) * u"
      using u_pos by simp
    then show ?thesis using assms ypos 1 by (simp add: fl_def Let_def u_def)
  next
    case 2
    have "fl x \<le> 2 powi (binary_exponent x + 1)" by (rule fl_pos_bounds(2)[OF assms(1)])
    also have "\<dots> \<le> 2 powi (binary_exponent y)" using 2 by (intro power_int_increasing) auto
    also have "\<dots> \<le> fl y" by (rule fl_pos_bounds(1)[OF ypos])
    finally show ?thesis .
  qed
qed

lemma fl_mono:
  assumes "x \<le> y"
  shows "fl x \<le> fl y"
proof -
  consider "0 < x" | "x = 0" | "x < 0" "0 \<le> y" | "y < 0" using assms by linarith
  then show ?thesis
  proof cases
    case 1
    then show ?thesis using assms by (rule fl_mono_pos)
  next
    case 2
    then show ?thesis using assms fl_pos[of y] by (cases "y = 0") (auto simp: fl_0)
  next
    case 3
    have "fl x < 0" using fl_pos[of "- x"] 3(1) by (simp add: fl_minus)
    moreover have "0 \<le> fl y" using fl_pos[of y] 3(2) by (cases "y = 0") (auto simp: fl_0)
    ultimately show ?thesis by simp
  next
    case 4
    then have "fl (- y) \<le> fl (- x)" using assms by (intro fl_mono_pos) auto
    then show ?thesis by (simp add: fl_minus)
  qed
qed

lemma fl_1: "fl 1 = 1"
  by code_simp

section \<open>The scoring loop\<close>

lemma fl_minus_1: "fl (- 1) = - 1"
  by (simp add: fl_minus fl_1)

lemma int_truediv_unit:
  assumes "0 < t" "0 \<le> w" "w \<le> t"
  shows "0 \<le> int_truediv w t" and "int_truediv w t \<le> 1"
proof -
  have "(0::rat) \<le> of_int w / of_int t" using assms by simp
  from fl_mono[OF this] show "0 \<le> int_truediv w t" by (simp add: int_truediv_def fl_0)
  have "(of_int w / of_int t :: rat) \<le> 1" using assms by simp
  from fl_mono[OF this] show "int_truediv w t \<le> 1" by (simp add: int_truediv_def fl_1)
qed

lemma float_sub_unit:
  assumes "0 \<le> x" "x \<le> 1" "0 \<le> y" "y \<le> 1"
  shows "- 1 \<le> float_sub x y" and "float_sub x y \<le> 1"
proof -
  have "- 1 \<le> x - y" using assms by simp
  from fl_mono[OF this] show "- 1 \<le> float_sub x y" by (simp add: float_sub_def fl_minus_1)
  have "x - y \<le> 1" using assms by simp
  from fl_mono[OF this] show "float_sub x y \<le> 1" by (simp add: float_sub_def fl_1)
qed

lemma row_score_bounds:
  assumes "aggregate_row r"
  shows "- 1 \<le> row_score r" and "row_score r \<le> 1"
proof -
  obtain pt t w h where r: "r = (pt, t, w, h)" by (cases r) auto
  from assms have a: "0 < t" "0 \<le> w" "w \<le> t" "0 \<le> h" "h \<le> t"
    by (simp_all add: aggregate_row_def r)
  have s: "row_score r = float_sub (int_truediv w t) (int_truediv h t)"
    using a(1) by (simp add: row_score_def row_rates_def r)
  show "- 1 \<le> row_score r" unfolding s
    by (intro float_sub_unit int_truediv_unit a)
  show "row_score r \<le> 1" unfolding s
    by (intro float_sub_unit int_truediv_unit a)
qed

lemma best_loop_Cons:
  "best_loop (r # rows) (bs, bp) =
     (if bs < row_score r then best_loop rows (row_score r, Some (winner r)) else best_loop rows (bs, bp))"
  by (cases r) (simp add: row_score_def row_rates_def winner_def Let_def)

lemma best_loop_spec:
  "(( \<forall>r \<in> set rows. row_score r \<le> bs) \<and> best_loop rows (bs, bp) = (bs, bp)) \<or>
   (\<exists>before r after.
      rows = before @ r # after \<and> bs < row_score r \<and>
      (\<forall>x \<in> set before. row_score x < row_score r) \<and>
      (\<forall>x \<in> set after. row_score x \<le> row_score r) \<and>
      best_loop rows (bs, bp) = (row_score r, Some (winner r)))"
proof (induction rows arbitrary: bs bp)
  case Nil
  then show ?case by simp
next
  case (Cons a rows)
  show ?case
  proof (cases "bs < row_score a")
    case True
    from Cons.IH[of "row_score a" "Some (winner a)"] show ?thesis
    proof (elim disjE conjE exE)
      assume "\<forall>r\<in>set rows. row_score r \<le> row_score a"
        and "best_loop rows (row_score a, Some (winner a)) = (row_score a, Some (winner a))"
      then have "a # rows = [] @ a # rows \<and> bs < row_score a \<and>
          (\<forall>x \<in> set []. row_score x < row_score a) \<and>
          (\<forall>x \<in> set rows. row_score x \<le> row_score a) \<and>
          best_loop (a # rows) (bs, bp) = (row_score a, Some (winner a))"
        using True by (simp add: best_loop_Cons)
      then show ?thesis by blast
    next
      fix before r after
      assume h: "rows = before @ r # after" "row_score a < row_score r"
        "\<forall>x\<in>set before. row_score x < row_score r"
        "\<forall>x\<in>set after. row_score x \<le> row_score r"
        "best_loop rows (row_score a, Some (winner a)) = (row_score r, Some (winner r))"
      then have "a # rows = (a # before) @ r # after \<and> bs < row_score r \<and>
          (\<forall>x \<in> set (a # before). row_score x < row_score r) \<and>
          (\<forall>x \<in> set after. row_score x \<le> row_score r) \<and>
          best_loop (a # rows) (bs, bp) = (row_score r, Some (winner r))"
        using True by (simp add: best_loop_Cons)
      then show ?thesis by blast
    qed
  next
    case False
    from Cons.IH[of bs bp] show ?thesis
    proof (elim disjE conjE exE)
      assume "\<forall>r\<in>set rows. row_score r \<le> bs" and "best_loop rows (bs, bp) = (bs, bp)"
      then show ?thesis using False by (simp add: best_loop_Cons)
    next
      fix before r after
      assume h: "rows = before @ r # after" "bs < row_score r"
        "\<forall>x\<in>set before. row_score x < row_score r"
        "\<forall>x\<in>set after. row_score x \<le> row_score r"
        "best_loop rows (bs, bp) = (row_score r, Some (winner r))"
      then have "a # rows = (a # before) @ r # after \<and> bs < row_score r \<and>
          (\<forall>x \<in> set (a # before). row_score x < row_score r) \<and>
          (\<forall>x \<in> set after. row_score x \<le> row_score r) \<and>
          best_loop (a # rows) (bs, bp) = (row_score r, Some (winner r))"
        using False by (simp add: best_loop_Cons)
      then show ?thesis by blast
    qed
  qed
qed


lemma row_score_spec: "aggregate_row r \<Longrightarrow> row_score r = spec_score r"
  by (cases r) (simp add: aggregate_row_def row_score_def row_rates_def spec_score_def)

lemma score_rows_first_best:
  assumes "rows \<noteq> []" and "\<forall>r \<in> set rows. aggregate_row r"
  shows "\<exists>before pt tot whiffs hard_hits after.
           rows = before @ (pt, tot, whiffs, hard_hits) # after \<and>
           (\<forall>x \<in> set before. spec_score x < spec_score (pt, tot, whiffs, hard_hits)) \<and>
           (\<forall>x \<in> set after. spec_score x \<le> spec_score (pt, tot, whiffs, hard_hits)) \<and>
           score_rows rows =
             Inr \<lparr>recommended_pitch_type = pt,
                  confidence = min lit_0_95 (max lit_0_55
                    (float_add (float_sub (int_truediv whiffs tot) (int_truediv hard_hits tot)) (1/2))),
                  rationale =
                    [pt @ '' has a whiff rate of '' @ format_pct0 (int_truediv whiffs tot) @
                     '' and hard-hit in-play rate of '' @ format_pct0 (int_truediv hard_hits tot) @
                     '' in similar situations.''],
                  historical =
                    \<lparr>sample_size = tot, whiff_pct = int_truediv whiffs tot,
                     in_play_hard_hit_pct = int_truediv hard_hits tot\<rparr>\<rparr>"
proof -
  obtain a rest where rows: "rows = a # rest" using assms(1) by (cases rows) auto
  have "aggregate_row a" using assms(2) rows by simp
  then have "\<not> row_score a \<le> - 999" using row_score_bounds(1)[of a] by linarith
  then have "\<not> (\<forall>r \<in> set rows. row_score r \<le> - 999)" using rows by auto
  with best_loop_spec[of rows "- 999" None]
  obtain before r after where d: "rows = before @ r # after"
    and lt: "\<forall>x \<in> set before. row_score x < row_score r"
    and le: "\<forall>x \<in> set after. row_score x \<le> row_score r"
    and res: "best_loop rows (- 999, None) = (row_score r, Some (winner r))"
    by blast
  obtain pt t w h where r: "r = (pt, t, w, h)" by (cases r) auto
  have agg: "\<forall>x \<in> set before \<union> set after \<union> {r}. aggregate_row x" using assms(2) d by auto
  then have "aggregate_row r" by simp
  then have tpos: "t \<noteq> 0" by (simp add: aggregate_row_def r)
  have lt': "\<forall>x \<in> set before. spec_score x < spec_score (pt, t, w, h)"
    using lt agg by (simp add: row_score_spec r[symmetric])
  have le': "\<forall>x \<in> set after. spec_score x \<le> spec_score (pt, t, w, h)"
    using le agg by (simp add: row_score_spec r[symmetric])
  have "score_rows rows =
      Inr \<lparr>recommended_pitch_type = pt,
           confidence = min lit_0_95 (max lit_0_55
             (float_add (float_sub (int_truediv w t) (int_truediv h t)) (1/2))),
           rationale =
             [pt @ '' has a whiff rate of '' @ format_pct0 (int_truediv w t) @
              '' and hard-hit in-play rate of '' @ format_pct0 (int_truediv h t) @
              '' in similar situations.''],
           historical =
             \<lparr>sample_size = t, whiff_pct = int_truediv w t,
              in_play_hard_hit_pct = int_truediv h t\<rparr>\<rparr>"
    using tpos by (simp add: score_rows_def res r winner_def row_score_def row_rates_def)
  with d lt' le' show ?thesis unfolding r by blast
qed

subsection \<open>The example of the specification, evaluated\<close>




lemma example_confidence: "min lit_0_95 (max lit_0_55 (float_add (1/2) (1/2))) = lit_0_95"
  by code_simp







section \<open>The fallback cascade\<close>

lemma group_row_aggregate:
  assumes "0 < fst (snd (group_row es pt))"
  shows "aggregate_row (group_row es pt)"
  using assms length_filter_le[of is_whiff "filter (\<lambda>e. pitch_type e = Some pt) es"]
    length_filter_le[of is_hard_hit "filter (\<lambda>e. pitch_type e = Some pt) es"]
  by (simp add: group_row_def aggregate_row_def Let_def del: filter_filter)

lemma sql_aggregate_rows:
  assumes "0 < q_min_total q"
  shows "\<forall>r \<in> set (sql_aggregate emit store q). aggregate_row r"
proof
  fix r assume "r \<in> set (sql_aggregate emit store q)"
  then have "r \<in> group_row (filter (where_clause q) store) ` UNIV" and "q_min_total q \<le> fst (snd r)"
    by (auto simp: sql_aggregate_def Let_def split: prod.splits)
  then obtain pt where r: "r = group_row (filter (where_clause q) store) pt"
    and m: "q_min_total q \<le> fst (snd r)"
    by blast
  from m assms have "0 < fst (snd r)" by linarith
  then show "aggregate_row r" unfolding r by (rule group_row_aggregate)
qed

lemma literal_bounds:
  "lit_0_55 \<le> lit_0_95" "55 / 100 \<le> lit_0_55" "lit_0_95 \<le> 95 / 100"
  by code_simp+

lemma score_rows_answer:
  assumes "rows \<noteq> []" and "\<forall>r \<in> set rows. aggregate_row r"
  shows "\<exists>rec. score_rows rows = Inr rec \<and> length (rationale rec) = 1 \<and>
           [] \<notin> set (rationale rec) \<and>
           lit_0_55 \<le> confidence rec \<and> confidence rec \<le> lit_0_95"
proof -
  from score_rows_first_best[OF assms] obtain rec pt c rest h where
    "score_rows rows = Inr rec" and
    "rec = \<lparr>recommended_pitch_type = pt, confidence = min lit_0_95 (max lit_0_55 c),
            rationale = [pt @ '' has a whiff rate of '' @ rest], historical = h\<rparr>"
    by force
  then show ?thesis using literal_bounds(1) by auto
qed

lemma recommend_pitch_trace:
  "fst (recommend_pitch db req) =
     (if db (exact_hand_query req) = [] then [exact_hand_query req, pooled_hand_query req]
      else [exact_hand_query req])"
  by (simp add: recommend_pitch_def Let_def)

lemma recommend_pitch_answer:
  "snd (recommend_pitch db req) =
     (if db (exact_hand_query req) \<noteq> [] then score_rows (db (exact_hand_query req))
      else if db (pooled_hand_query req) \<noteq> [] then score_rows (db (pooled_hand_query req))
      else Inr default_recommendation)"
  by (simp add: recommend_pitch_def Let_def)

lemma group_total_zero:
  assumes "pt \<notin> set (List.map_filter pitch_type es)"
  shows "filter (\<lambda>e. pitch_type e = Some pt) es = []"
proof -
  have "\<forall>e \<in> set es. pitch_type e \<noteq> Some pt"
  proof
    fix e assume "e \<in> set es"
    show "pitch_type e \<noteq> Some pt"
    proof
      assume "pitch_type e = Some pt"
      with \<open>e \<in> set es\<close> have "pt \<in> set (List.map_filter pitch_type es)"
        by (force simp: List.map_filter_def)
      with assms show False by simp
    qed
  qed
  then show ?thesis by (simp add: filter_empty_conv)
qed

lemma sql_aggregate_empty_iff:
  assumes "0 < q_min_total q"
  shows "sql_aggregate (\<lambda>ks. ks) store q = [] \<longleftrightarrow>
         (\<forall>pt. int (length (filter (\<lambda>e. pitch_type e = Some pt) (filter (where_clause q) store)))
                 < q_min_total q)"
proof -
  define es where "es = filter (where_clause q) store"
  have "sql_aggregate (\<lambda>ks. ks) store q = [] \<longleftrightarrow>
        (\<forall>pt \<in> set (List.map_filter pitch_type es).
           int (length (filter (\<lambda>e. pitch_type e = Some pt) es)) < q_min_total q)"
    by (auto simp add: sql_aggregate_def Let_def es_def[symmetric] filter_empty_conv group_row_def
        simp del: filter_filter)
  also have "\<dots> \<longleftrightarrow>
        (\<forall>pt. int (length (filter (\<lambda>e. pitch_type e = Some pt) es)) < q_min_total q)"
    using assms group_total_zero[of _ es] by (auto simp del: filter_filter)
  finally show ?thesis unfolding es_def .
qed

subsection \<open>The example store, evaluated\<close>

lemma example_exact_L:
  "sql_aggregate (\<lambda>ks. ks) example_store (exact_hand_query (example_request 1 ''L'')) = []"
  by code_simp

lemma example_pooled_L:
  "sql_aggregate (\<lambda>ks. ks) example_store (pooled_hand_query (example_request 1 ''L'')) =
     [(''CU'', 6, 3, 0), (''FF'', 5, 0, 1)]"
  by code_simp

lemma example_exact_R:
  "sql_aggregate (\<lambda>ks. ks) example_store (exact_hand_query (example_request 1 ''R'')) =
     [(''FF'', 5, 0, 1)]"
  by code_simp

lemma example_no_data:
  "sql_aggregate (\<lambda>ks. ks) example_store (exact_hand_query (example_request 0 ''R'')) = []"
  "sql_aggregate (\<lambda>ks. ks) example_store (pooled_hand_query (example_request 0 ''R'')) = []"
  by code_simp+

lemma example_CU_rates: "int_truediv 3 6 = 1/2" "int_truediv 0 6 = 0" "float_sub (1/2) 0 = 1/2"
  by code_simp+

lemma example_CU_FF_scores:
  "spec_score (''CU'', 6, 3, 0) = 1/2" "spec_score (''FF'', 5, 0, 1) < 0"
  by code_simp+

lemma example_CU_percent: "format_pct0 (1/2) = ''50%''" "format_pct0 0 = ''0%''"
  by code_simp+

lemma example_CU_FF:
  "score_rows [(''CU'', 6, 3, 0), (''FF'', 5, 0, 1)] =
     Inr \<lparr>recommended_pitch_type = ''CU'', confidence = lit_0_95,
          rationale =
            [''CU has a whiff rate of 50% and hard-hit in-play rate of 0% in similar situations.''],
          historical = \<lparr>sample_size = 6, whiff_pct = 1/2, in_play_hard_hit_pct = 0\<rparr>\<rparr>"
  using example_CU_FF_scores(2)
  by (simp add: score_rows_def best_loop_Cons row_score_spec winner_def row_rates_def
      aggregate_row_def example_CU_rates example_confidence example_CU_percent
      example_CU_FF_scores(1))

text \<open>
  Claim C2. The cascade is linear, without retries: \<^verbatim>\<open>recommend_pitch\<close> executes the
  exact-hand statement once; it executes the pooled statement, once and after it, if and
  only if the exact-hand statement returned no row, and no statement otherwise. The pooled
  statement has the pitcher, the balls, the strikes and the floor \<open>total \<ge> 5\<close> of the
  exact-hand statement and no batter-hand clause. With the store as the model of SQL
  evaluates it, the exact-hand statement returns no row exactly when no pitch type has five
  or more rows that satisfy its \<^verbatim>\<open>WHERE\<close> clause.
\<close>

theorem fallback_cascade_linear:
  "fst (recommend_pitch db req) =
     (if db (exact_hand_query req) = []
      then [exact_hand_query req, pooled_hand_query req] else [exact_hand_query req]) \<and>
   (pooled_hand_query req \<in> set (fst (recommend_pitch db req)) \<longleftrightarrow>
      db (exact_hand_query req) = []) \<and>
   distinct (fst (recommend_pitch db req)) \<and>
   pooled_hand_query req = (exact_hand_query req)\<lparr>q_hand := None\<rparr> \<and>
   q_hand (exact_hand_query req) = Some (req_batter_hand req) \<and>
   q_min_total (exact_hand_query req) = 5 \<and>
   q_min_total (pooled_hand_query req) = 5 \<and>
   (pooled_hand_query req \<in> set (fst (recommend_pitch (sql_aggregate (\<lambda>ks. ks) store) req)) \<longleftrightarrow>
      (\<forall>pt. int (length (filter (\<lambda>e. pitch_type e = Some pt)
                    (filter (where_clause (exact_hand_query req)) store))) < 5))"
proof -
  have ne: "pooled_hand_query req \<noteq> exact_hand_query req"
    by (simp add: pooled_hand_query_def exact_hand_query_def)
  have five: "q_min_total (exact_hand_query req) = 5"
    by (simp add: exact_hand_query_def)
  have mem: "pooled_hand_query req \<in> set (fst (recommend_pitch d req)) \<longleftrightarrow>
      d (exact_hand_query req) = []" for d
    using ne by (simp add: recommend_pitch_trace)
  have sql: "sql_aggregate (\<lambda>ks. ks) store (exact_hand_query req) = [] \<longleftrightarrow>
      (\<forall>pt. int (length (filter (\<lambda>e. pitch_type e = Some pt)
                    (filter (where_clause (exact_hand_query req)) store))) < 5)"
    using sql_aggregate_empty_iff[of "exact_hand_query req" store] by (simp add: five)
  have dist: "distinct (fst (recommend_pitch db req))"
    using ne by (simp add: recommend_pitch_trace)
  show ?thesis
    using mem[of db] mem[of "sql_aggregate (\<lambda>ks. ks) store"] sql dist
    by (simp add: recommend_pitch_trace pooled_hand_query_def exact_hand_query_def)
qed

theorem fallback_cascade_linear_witness:
  "sql_aggregate (\<lambda>ks. ks) example_store (exact_hand_query (example_request 1 ''L'')) = [] \<and>
   fst (recommend_pitch (sql_aggregate (\<lambda>ks. ks) example_store) (example_request 1 ''L'')) =
     [exact_hand_query (example_request 1 ''L''), pooled_hand_query (example_request 1 ''L'')] \<and>
   sql_aggregate (\<lambda>ks. ks) example_store (exact_hand_query (example_request 1 ''R'')) =
     [(''FF'', 5, 0, 1)] \<and>
   fst (recommend_pitch (sql_aggregate (\<lambda>ks. ks) example_store) (example_request 1 ''R'')) =
     [exact_hand_query (example_request 1 ''R'')]"
proof -
  have l: "fst (recommend_pitch (sql_aggregate (\<lambda>ks. ks) example_store) (example_request 1 ''L'')) =
     [exact_hand_query (example_request 1 ''L''), pooled_hand_query (example_request 1 ''L'')]"
    using fallback_cascade_linear[of "sql_aggregate (\<lambda>ks. ks) example_store"
        "example_request 1 ''L''", THEN conjunct1]
    by (simp only: example_exact_L simp_thms if_True)
  have r: "fst (recommend_pitch (sql_aggregate (\<lambda>ks. ks) example_store) (example_request 1 ''R'')) =
     [exact_hand_query (example_request 1 ''R'')]"
    using fallback_cascade_linear[of "sql_aggregate (\<lambda>ks. ks) example_store"
        "example_request 1 ''R''", THEN conjunct1]
    by (simp only: example_exact_R list.simps simp_thms if_False)
  from l r example_exact_L example_exact_R show ?thesis by (simp only: simp_thms)
qed

text \<open>
  Claim C3. \<^verbatim>\<open>recommend_pitch\<close> always answers, and never with an error. When the
  exact-hand statement or else the pooled statement returns a row, the rationale is one
  non-empty sentence and the confidence lies between the floats \<open>0.55\<close> and \<open>0.95\<close>, hence
  between the real numbers 0.55 and 0.95. When both return no row, the answer is the
  default: pitch type FF, confidence 0.5, sample size 0, both rates zero and the note on
  insufficient data. This holds for every store and every order in which the engine
  returns the groups.
\<close>

theorem recommend_always_answers:
  "\<exists>rec. snd (recommend_pitch (sql_aggregate emit store) req) = Inr rec \<and>
     (if sql_aggregate emit store (exact_hand_query req) = [] \<and>
         sql_aggregate emit store (pooled_hand_query req) = []
      then rec =
         \<lparr>recommended_pitch_type = ''FF'', confidence = 1/2,
          rationale =
            [''Insufficient historical data for this situation; defaulting to four-seam fastball.''],
          historical = \<lparr>sample_size = 0, whiff_pct = 0, in_play_hard_hit_pct = 0\<rparr>\<rparr>
      else length (rationale rec) = 1 \<and> [] \<notin> set (rationale rec) \<and>
           lit_0_55 \<le> confidence rec \<and> confidence rec \<le> lit_0_95 \<and>
           55 / 100 \<le> confidence rec \<and> confidence rec \<le> 95 / 100)"
proof -
  let ?db = "sql_aggregate emit store"
  have agg: "\<forall>r \<in> set (?db q). aggregate_row r" if "q_min_total q = 5" for q
    using sql_aggregate_rows[of q emit store] that by simp
  have a1: "\<forall>r \<in> set (?db (exact_hand_query req)). aggregate_row r"
    by (rule agg) (simp add: exact_hand_query_def)
  have a2: "\<forall>r \<in> set (?db (pooled_hand_query req)). aggregate_row r"
    by (rule agg) (simp add: pooled_hand_query_def)
  consider (exact) "?db (exact_hand_query req) \<noteq> []"
    | (pooled) "?db (exact_hand_query req) = []" "?db (pooled_hand_query req) \<noteq> []"
    | (none) "?db (exact_hand_query req) = []" "?db (pooled_hand_query req) = []"
    by blast
  then show ?thesis
  proof cases
    case exact
    from score_rows_answer[OF exact a1] obtain rec where
      "score_rows (?db (exact_hand_query req)) = Inr rec" "length (rationale rec) = 1"
      "[] \<notin> set (rationale rec)" "lit_0_55 \<le> confidence rec" "confidence rec \<le> lit_0_95"
      by blast
    then show ?thesis using exact literal_bounds(2,3)
      by (intro exI[of _ rec]) (simp add: recommend_pitch_answer)
  next
    case pooled
    from score_rows_answer[OF pooled(2) a2] obtain rec where
      "score_rows (?db (pooled_hand_query req)) = Inr rec" "length (rationale rec) = 1"
      "[] \<notin> set (rationale rec)" "lit_0_55 \<le> confidence rec" "confidence rec \<le> lit_0_95"
      by blast
    then show ?thesis using pooled literal_bounds(2,3)
      by (intro exI[of _ rec]) (simp add: recommend_pitch_answer)
  next
    case none
    then show ?thesis
      by (simp add: recommend_pitch_answer default_recommendation_def)
  qed
qed

theorem recommend_always_answers_witness:
  "sql_aggregate (\<lambda>ks. ks) example_store (pooled_hand_query (example_request 1 ''L'')) \<noteq> [] \<and>
   snd (recommend_pitch (sql_aggregate (\<lambda>ks. ks) example_store) (example_request 1 ''L'')) =
     Inr \<lparr>recommended_pitch_type = ''CU'', confidence = lit_0_95,
          rationale =
            [''CU has a whiff rate of 50% and hard-hit in-play rate of 0% in similar situations.''],
          historical = \<lparr>sample_size = 6, whiff_pct = 1/2, in_play_hard_hit_pct = 0\<rparr>\<rparr> \<and>
   sql_aggregate (\<lambda>ks. ks) example_store (exact_hand_query (example_request 0 ''R'')) = [] \<and>
   sql_aggregate (\<lambda>ks. ks) example_store (pooled_hand_query (example_request 0 ''R'')) = [] \<and>
   snd (recommend_pitch (sql_aggregate (\<lambda>ks. ks) example_store) (example_request 0 ''R'')) =
     Inr default_recommendation"
proof -
  have data: "snd (recommend_pitch (sql_aggregate (\<lambda>ks. ks) example_store) (example_request 1 ''L'')) =
     Inr \<lparr>recommended_pitch_type = ''CU'', confidence = lit_0_95,
          rationale =
            [''CU has a whiff rate of 50% and hard-hit in-play rate of 0% in similar situations.''],
          historical = \<lparr>sample_size = 6, whiff_pct = 1/2, in_play_hard_hit_pct = 0\<rparr>\<rparr>"
    by (simp add: recommend_pitch_answer example_exact_L example_pooled_L example_CU_FF)
  from recommend_always_answers[of "\<lambda>ks. ks" example_store "example_request 0 ''R''"]
  have none: "snd (recommend_pitch (sql_aggregate (\<lambda>ks. ks) example_store) (example_request 0 ''R'')) =
     Inr default_recommendation"
    by (auto simp add: example_no_data default_recommendation_def)
  from data none example_no_data example_pooled_L show ?thesis by simp
qed

section \<open>The pitch-location summary\<close>

lemma locations_loop_spec:
  "locations_loop rows (ps, tops, bots) =
     (ps @ map location_of rows, tops @ List.map_filter row_sz_top rows,
      bots @ List.map_filter row_sz_bot rows)"
proof (induction rows arbitrary: ps tops bots)
  case Nil
  then show ?case by simp
next
  case (Cons r rows)
  obtain px pz zt zb pt descr outc where r: "r = (px, pz, zt, zb, pt, descr, outc)"
    by (cases r) auto
  show ?case
    by (simp add: r Cons.IH location_of_def row_sz_top_def row_sz_bot_def split: option.split)
qed

lemma avg_or_none_mean:
  "avg_or_none xs = Inr (if xs = [] then None else Some (float_mean xs))"
  by (simp add: avg_or_none_def float_div_int_def float_mean_def)

lemma exact_sums_foldl:
  "exact_sums acc xs \<Longrightarrow> foldl float_add acc xs = acc + sum_list xs"
  by (induction xs arbitrary: acc) (simp_all add: float_add_def add.assoc)

lemma float_mean_exact:
  assumes "exact_sums 0 xs" and "fl (sum_list xs / of_nat (length xs)) = sum_list xs / of_nat (length xs)"
  shows "float_mean xs = sum_list xs / of_nat (length xs)"
  using exact_sums_foldl[OF assms(1)] assms(2) by (simp add: float_mean_def py_sum_def)

lemma pitcher_pitches_result:
  "pitcher_pitches db pid b s hand n =
     ([\<lparr>l_pitcher = pid, l_balls = b, l_strikes = s, l_hand = hand_clause hand, l_limit = n\<rparr>],
      Inr \<lparr>pr_pitcher_id = pid, pr_balls = b, pr_strikes = s, pr_batter_hand = hand,
           avg_sz_top =
             (let tops = List.map_filter row_sz_top
                (db \<lparr>l_pitcher = pid, l_balls = b, l_strikes = s, l_hand = hand_clause hand, l_limit = n\<rparr>)
              in if tops = [] then None else Some (float_mean tops)),
           avg_sz_bot =
             (let bots = List.map_filter row_sz_bot
                (db \<lparr>l_pitcher = pid, l_balls = b, l_strikes = s, l_hand = hand_clause hand, l_limit = n\<rparr>)
              in if bots = [] then None else Some (float_mean bots)),
           pitches = map location_of
             (db \<lparr>l_pitcher = pid, l_balls = b, l_strikes = s, l_hand = hand_clause hand, l_limit = n\<rparr>)\<rparr>)"
  by (simp add: pitcher_pitches_def locations_loop_spec avg_or_none_mean Let_def)

subsection \<open>The located store, evaluated\<close>

lemma located_rows:
  "sql_locations located_store
     \<lparr>l_pitcher = 1, l_balls = 0, l_strikes = 0, l_hand = None, l_limit = 500\<rparr> =
   [(Some (1/2), Some (5/2), Some (7/2), Some (3/2), Some ''FF'', Some ''ball'', None),
    (Some (- 1/4), Some 2, Some (13/4), None, Some ''FF'', Some ''ball'', None)]"
  by code_simp

lemma located_rows_none:
  "sql_locations located_store
     \<lparr>l_pitcher = 1, l_balls = 3, l_strikes = 2, l_hand = None, l_limit = 500\<rparr> = []"
  by code_simp

lemma located_means:
  "float_mean [7/2, 13/4] = 27/8" "float_mean [3/2] = 3/2"
  by code_simp+

lemma located_exact:
  "exact_sums 0 [7/2, 13/4]" "fl (sum_list [7/2, 13/4] / of_nat (length [7/2, 13/4 :: rat])) = 27/8"
  by code_simp+

lemma located_response:
  "pitcher_pitches (sql_locations located_store) 1 0 0 None 500 =
     ([\<lparr>l_pitcher = 1, l_balls = 0, l_strikes = 0, l_hand = None, l_limit = 500\<rparr>],
      Inr \<lparr>pr_pitcher_id = 1, pr_balls = 0, pr_strikes = 0, pr_batter_hand = None,
           avg_sz_top = Some (27/8), avg_sz_bot = Some (3/2),
           pitches =
             [\<lparr>loc_plate_x = Some (1/2), loc_plate_z = Some (5/2), loc_pitch_type = Some ''FF'',
               loc_description = Some ''ball'', loc_outcome = None\<rparr>,
              \<lparr>loc_plate_x = Some (- 1/4), loc_plate_z = Some 2, loc_pitch_type = Some ''FF'',
               loc_description = Some ''ball'', loc_outcome = None\<rparr>]\<rparr>)"
  by (simp add: pitcher_pitches_result Let_def hand_clause_def located_rows row_sz_top_def
      row_sz_bot_def location_of_def located_means)

text \<open>
  Claim C8. For every result set of the pitch-location statement, \<^verbatim>\<open>avg_sz_top\<close> is the
  arithmetic mean (the float sum divided by the count) of the \<^verbatim>\<open>sz_top\<close> values of the
  returned rows that are not null, and \<^verbatim>\<open>avg_sz_bot\<close> that of the \<^verbatim>\<open>sz_bot\<close> values;
  each is null when there is no such value. Where the float additions and the division are
  exact, this is the mean of the rational values. The division by zero is never reached:
  the operation always returns a response. With no located pitch the response has an empty
  pitch list and null for both averages.
\<close>

theorem location_summary_means:
  "(let rows = db \<lparr>l_pitcher = pid, l_balls = b, l_strikes = s, l_hand = hand_clause hand,
                     l_limit = n\<rparr>;
        tops = List.map_filter row_sz_top rows;
        bots = List.map_filter row_sz_bot rows
    in snd (pitcher_pitches db pid b s hand n) =
         Inr \<lparr>pr_pitcher_id = pid, pr_balls = b, pr_strikes = s, pr_batter_hand = hand,
              avg_sz_top = (if tops = [] then None else Some (float_mean tops)),
              avg_sz_bot = (if bots = [] then None else Some (float_mean bots)),
              pitches = map location_of rows\<rparr> \<and>
       (rows = [] \<longrightarrow>
          snd (pitcher_pitches db pid b s hand n) =
            Inr \<lparr>pr_pitcher_id = pid, pr_balls = b, pr_strikes = s, pr_batter_hand = hand,
                 avg_sz_top = None, avg_sz_bot = None, pitches = []\<rparr>)) \<and>
   (\<forall>e. snd (pitcher_pitches db pid b s hand n) \<noteq> Inl e) \<and>
   (\<forall>xs. exact_sums 0 xs \<and>
         fl (sum_list xs / of_nat (length xs)) = sum_list xs / of_nat (length xs) \<longrightarrow>
         float_mean xs = sum_list xs / of_nat (length xs))"
  by (simp add: pitcher_pitches_result float_mean_exact Let_def)

theorem location_summary_means_witness:
  "snd (pitcher_pitches (sql_locations located_store) 1 0 0 None 500) =
     Inr \<lparr>pr_pitcher_id = 1, pr_balls = 0, pr_strikes = 0, pr_batter_hand = None,
          avg_sz_top = Some (27/8), avg_sz_bot = Some (3/2),
          pitches =
            [\<lparr>loc_plate_x = Some (1/2), loc_plate_z = Some (5/2), loc_pitch_type = Some ''FF'',
              loc_description = Some ''ball'', loc_outcome = None\<rparr>,
             \<lparr>loc_plate_x = Some (- 1/4), loc_plate_z = Some 2, loc_pitch_type = Some ''FF'',
              loc_description = Some ''ball'', loc_outcome = None\<rparr>]\<rparr> \<and>
   exact_sums 0 [7/2, 13/4] \<and>
   float_mean [7/2, 13/4] = sum_list [7/2, 13/4] / of_nat (length [7/2, 13/4 :: rat]) \<and>
   sql_locations located_store
     \<lparr>l_pitcher = 1, l_balls = 3, l_strikes = 2, l_hand = None, l_limit = 500\<rparr> = [] \<and>
   snd (pitcher_pitches (sql_locations located_store) 1 3 2 None 500) =
     Inr \<lparr>pr_pitcher_id = 1, pr_balls = 3, pr_strikes = 2, pr_batter_hand = None,
          avg_sz_top = None, avg_sz_bot = None, pitches = []\<rparr>"
proof -
  note t = location_summary_means[of "sql_locations located_store" 1 0 0 None 500]
  have a: "snd (pitcher_pitches (sql_locations located_store) 1 0 0 None 500) =
     Inr \<lparr>pr_pitcher_id = 1, pr_balls = 0, pr_strikes = 0, pr_batter_hand = None,
          avg_sz_top = Some (27/8), avg_sz_bot = Some (3/2),
          pitches =
            [\<lparr>loc_plate_x = Some (1/2), loc_plate_z = Some (5/2), loc_pitch_type = Some ''FF'',
              loc_description = Some ''ball'', loc_outcome = None\<rparr>,
             \<lparr>loc_plate_x = Some (- 1/4), loc_plate_z = Some 2, loc_pitch_type = Some ''FF'',
              loc_description = Some ''ball'', loc_outcome = None\<rparr>]\<rparr>"
    using t[THEN conjunct1]
    by (simp add: Let_def hand_clause_def located_rows row_sz_top_def row_sz_bot_def
        location_of_def located_means)
  have b: "float_mean [7/2, 13/4] = sum_list [7/2, 13/4] / of_nat (length [7/2, 13/4 :: rat])"
    using t[THEN conjunct2, THEN conjunct2] located_exact by simp
  have c: "snd (pitcher_pitches (sql_locations located_store) 1 3 2 None 500) =
     Inr \<lparr>pr_pitcher_id = 1, pr_balls = 3, pr_strikes = 2, pr_batter_hand = None,
          avg_sz_top = None, avg_sz_bot = None, pitches = []\<rparr>"
    using location_summary_means[of "sql_locations located_store" 1 3 2 None 500,
        THEN conjunct1]
    by (simp add: Let_def hand_clause_def located_rows_none)
  from a b c located_exact(1) located_rows_none show ?thesis by simp
qed

section \<open>The request boundary and the batter-hand filter\<close>

lemma validate_int_limit:
  "validate_int ''limit'' limit_param given =
     (case given of None \<Rightarrow> Inr 500
      | Some v \<Rightarrow> if v < 1 \<or> 2000 < v then Inl (OutOfRange ''limit'' v) else Inr v)"
  by (simp add: validate_int_def limit_param_def split: option.split)

lemma validate_int_balls:
  "validate_int ''balls'' balls_param given =
     (case given of None \<Rightarrow> Inl (Missing ''balls'')
      | Some v \<Rightarrow> if 3 < v then Inl (OutOfRange ''balls'' v) else Inr v)"
  by (simp add: validate_int_def balls_param_def split: option.split)

lemma validate_int_strikes:
  "validate_int ''strikes'' strikes_param given =
     (case given of None \<Rightarrow> Inl (Missing ''strikes'')
      | Some v \<Rightarrow> if 2 < v then Inl (OutOfRange ''strikes'' v) else Inr v)"
  by (simp add: validate_int_def strikes_param_def split: option.split)

text \<open>What the boundary enforces: the upper bounds of \<^verbatim>\<open>balls\<close> and \<^verbatim>\<open>strikes\<close>, both
  bounds of \<^verbatim>\<open>limit\<close>, and the default 500 of \<^verbatim>\<open>limit\<close>.\<close>

lemma pitches_operation_boundary:
  "pitches_operation db pid (Some b) (Some s) hand given =
     (if 3 < b then Inl (OutOfRange ''balls'' b)
      else if 2 < s then Inl (OutOfRange ''strikes'' s)
      else case given of
             None \<Rightarrow> Inr (pitcher_pitches db pid b s hand 500)
           | Some n \<Rightarrow> if n < 1 \<or> 2000 < n then Inl (OutOfRange ''limit'' n)
                       else Inr (pitcher_pitches db pid b s hand n))"
  by (simp add: pitches_operation_def validate_int_balls validate_int_strikes validate_int_limit
      split: option.split)

text \<open>
  Claim C6. The claim: a \<^verbatim>\<open>balls\<close> value outside 0 to 3, a \<^verbatim>\<open>strikes\<close> value outside
  0 to 2 or a \<^verbatim>\<open>limit\<close> outside 1 to 2000 is rejected before any statement runs, and
  \<^verbatim>\<open>limit\<close> defaults to 500. The code declares the lower bounds of \<^verbatim>\<open>balls\<close> and
  \<^verbatim>\<open>strikes\<close> as \<^verbatim>\<open>ge0=0\<close>, which is no bound: for \<open>balls = -1\<close>, and likewise for
  \<open>strikes = -1\<close>, the request passes the boundary and the statement is executed with the
  negative value (and with the default limit 500).
\<close>

theorem negative_balls_reach_the_query:
  "pitches_operation db 7 (Some (- 1)) (Some 0) None None =
     Inr (pitcher_pitches db 7 (- 1) 0 None 500) \<and>
   fst (pitcher_pitches db 7 (- 1) 0 None 500) =
     [\<lparr>l_pitcher = 7, l_balls = - 1, l_strikes = 0, l_hand = None, l_limit = 500\<rparr>] \<and>
   pitches_operation db 7 (Some 0) (Some (- 1)) None None =
     Inr (pitcher_pitches db 7 0 (- 1) None 500) \<and>
   fst (pitcher_pitches db 7 0 (- 1) None 500) =
     [\<lparr>l_pitcher = 7, l_balls = 0, l_strikes = - 1, l_hand = None, l_limit = 500\<rparr>]"
  by (simp add: pitches_operation_boundary pitcher_pitches_result hand_clause_def)

lemma hand_clause_invalid:
  "hand \<noteq> Some ''L'' \<Longrightarrow> hand \<noteq> Some ''R'' \<Longrightarrow> hand_clause hand = None"
  by (simp add: hand_clause_def)

lemma hand_clause_None: "hand_clause None = None"
  by (simp add: hand_clause_def)

text \<open>
  Claim C10, as amended. For every \<^verbatim>\<open>batter_hand\<close> value other than exactly \<open>L\<close> or
  \<open>R\<close>, the usage and the pitches operations execute their statement without the
  batter-hand clause. The usage operation returns exactly what it returns when
  \<^verbatim>\<open>batter_hand\<close> is omitted. The pitches operation is rejected in the same cases, and
  returns the same pitches and averages, as when \<^verbatim>\<open>batter_hand\<close> is omitted; its response
  carries the given value in the field \<^verbatim>\<open>batter_hand\<close>.
\<close>

theorem invalid_hand_not_filtered:
  assumes "hand \<noteq> Some ''L''" and "hand \<noteq> Some ''R''"
  shows "pitcher_usage udb pid hand = pitcher_usage udb pid None \<and>
         fst (pitcher_usage udb pid hand) = [\<lparr>u_pitcher = pid, u_hand = None\<rparr>] \<and>
         fst (pitcher_pitches db pid b s hand n) =
           [\<lparr>l_pitcher = pid, l_balls = b, l_strikes = s, l_hand = None, l_limit = n\<rparr>] \<and>
         fst (pitcher_pitches db pid b s hand n) = fst (pitcher_pitches db pid b s None n) \<and>
         (\<exists>r. snd (pitcher_pitches db pid b s None n) = Inr r \<and>
              snd (pitcher_pitches db pid b s hand n) = Inr (r\<lparr>pr_batter_hand := hand\<rparr>)) \<and>
         pitches_operation db pid ob os hand on =
           (case pitches_operation db pid ob os None on of
              Inl rej \<Rightarrow> Inl rej
            | Inr (executed, res) \<Rightarrow>
                Inr (executed,
                     case res of Inl e \<Rightarrow> Inl e | Inr r \<Rightarrow> Inr (r\<lparr>pr_batter_hand := hand\<rparr>)))"
proof -
  have h: "hand_clause hand = None" using assms by (rule hand_clause_invalid)
  have u: "pitcher_usage udb pid hand = pitcher_usage udb pid None"
    by (simp add: pitcher_usage_def h hand_clause_None)
  have uq: "fst (pitcher_usage udb pid hand) = [\<lparr>u_pitcher = pid, u_hand = None\<rparr>]"
    by (simp add: pitcher_usage_def h Let_def)
  have p: "pitcher_pitches db pid b' s' hand n' =
      (fst (pitcher_pitches db pid b' s' None n'),
       case snd (pitcher_pitches db pid b' s' None n') of
         Inl e \<Rightarrow> Inl e | Inr r \<Rightarrow> Inr (r\<lparr>pr_batter_hand := hand\<rparr>))" for b' s' n'
    by (simp add: pitcher_pitches_result h hand_clause_None)
  have op: "pitches_operation db pid ob os hand on =
           (case pitches_operation db pid ob os None on of
              Inl rej \<Rightarrow> Inl rej
            | Inr (executed, res) \<Rightarrow>
                Inr (executed,
                     case res of Inl e \<Rightarrow> Inl e | Inr r \<Rightarrow> Inr (r\<lparr>pr_batter_hand := hand\<rparr>)))"
    by (auto simp add: pitches_operation_def p split: sum.split prod.split)
  show ?thesis
    using u uq op by (simp add: pitcher_pitches_result h hand_clause_None)
qed

lemma example_usage_rows:
  "sql_usage example_store \<lparr>u_pitcher = 1, u_hand = None\<rparr> =
     [(1, 2, ''CU'', 6, 3, 0), (1, 2, ''FF'', 5, 0, 1)]"
  "sql_usage example_store \<lparr>u_pitcher = 1, u_hand = Some ''L''\<rparr> = [(1, 2, ''CU'', 2, 2, 0)]"
  by code_simp+

lemma example_usage_keys: "str_int 1 = ''1''" "str_int 2 = ''2''"
  by code_simp+

lemma example_usage_rates: "int_truediv 2 2 = 1" "int_truediv 0 2 = 0" "int_truediv 0 5 = 0"
  by code_simp+

theorem invalid_hand_not_filtered_witness:
  "Some ''l'' \<noteq> Some ''L'' \<and> Some ''l'' \<noteq> Some ''R'' \<and>
   pitcher_usage (sql_usage example_store) 1 (Some ''l'') =
     pitcher_usage (sql_usage example_store) 1 None \<and>
   pitcher_usage (sql_usage example_store) 1 None =
     ([\<lparr>u_pitcher = 1, u_hand = None\<rparr>],
      \<lparr>ur_pitcher_id = 1,
       ur_usage_by_count =
         [(''1-2'',
           [\<lparr>ue_pitch_type = ''CU'', ue_total = 6, ue_whiff_pct = 1/2, ue_hard_hit_pct = 0\<rparr>,
            \<lparr>ue_pitch_type = ''FF'', ue_total = 5, ue_whiff_pct = 0,
             ue_hard_hit_pct = int_truediv 1 5\<rparr>])]\<rparr>) \<and>
   pitcher_usage (sql_usage example_store) 1 (Some ''L'') =
     ([\<lparr>u_pitcher = 1, u_hand = Some ''L''\<rparr>],
      \<lparr>ur_pitcher_id = 1,
       ur_usage_by_count =
         [(''1-2'',
           [\<lparr>ue_pitch_type = ''CU'', ue_total = 2, ue_whiff_pct = 1, ue_hard_hit_pct = 0\<rparr>])]\<rparr>) \<and>
   pitcher_pitches (sql_locations located_store) 1 0 0 (Some ''l'') 500 =
     ([\<lparr>l_pitcher = 1, l_balls = 0, l_strikes = 0, l_hand = None, l_limit = 500\<rparr>],
      Inr \<lparr>pr_pitcher_id = 1, pr_balls = 0, pr_strikes = 0, pr_batter_hand = Some ''l'',
           avg_sz_top = Some (27/8), avg_sz_bot = Some (3/2),
           pitches =
             [\<lparr>loc_plate_x = Some (1/2), loc_plate_z = Some (5/2), loc_pitch_type = Some ''FF'',
               loc_description = Some ''ball'', loc_outcome = None\<rparr>,
              \<lparr>loc_plate_x = Some (- 1/4), loc_plate_z = Some 2, loc_pitch_type = Some ''FF'',
               loc_description = Some ''ball'', loc_outcome = None\<rparr>]\<rparr>)"
proof -
  have h: "Some ''l'' \<noteq> Some ''L''" "Some ''l'' \<noteq> Some ''R''"
    by simp_all
  note t = invalid_hand_not_filtered[OF h, of "sql_usage example_store" 1
      "sql_locations located_store" 0 0 500]
  have u: "pitcher_usage (sql_usage example_store) 1 (Some ''l'') =
     pitcher_usage (sql_usage example_store) 1 None"
    using t by (rule conjunct1)
  have un: "pitcher_usage (sql_usage example_store) 1 None =
     ([\<lparr>u_pitcher = 1, u_hand = None\<rparr>],
      \<lparr>ur_pitcher_id = 1,
       ur_usage_by_count =
         [(''1-2'',
           [\<lparr>ue_pitch_type = ''CU'', ue_total = 6, ue_whiff_pct = 1/2, ue_hard_hit_pct = 0\<rparr>,
            \<lparr>ue_pitch_type = ''FF'', ue_total = 5, ue_whiff_pct = 0,
             ue_hard_hit_pct = int_truediv 1 5\<rparr>])]\<rparr>)"
    by (simp add: pitcher_usage_def hand_clause_def example_usage_rows example_usage_keys
        append_entry_def example_CU_rates example_usage_rates)
  have ul: "pitcher_usage (sql_usage example_store) 1 (Some ''L'') =
     ([\<lparr>u_pitcher = 1, u_hand = Some ''L''\<rparr>],
      \<lparr>ur_pitcher_id = 1,
       ur_usage_by_count =
         [(''1-2'',
           [\<lparr>ue_pitch_type = ''CU'', ue_total = 2, ue_whiff_pct = 1, ue_hard_hit_pct = 0\<rparr>])]\<rparr>)"
    by (simp add: pitcher_usage_def hand_clause_def example_usage_rows example_usage_keys
        append_entry_def example_usage_rates)
  have p: "pitcher_pitches (sql_locations located_store) 1 0 0 (Some ''l'') 500 =
     ([\<lparr>l_pitcher = 1, l_balls = 0, l_strikes = 0, l_hand = None, l_limit = 500\<rparr>],
      Inr \<lparr>pr_pitcher_id = 1, pr_balls = 0, pr_strikes = 0, pr_batter_hand = Some ''l'',
           avg_sz_top = Some (27/8), avg_sz_bot = Some (3/2),
           pitches =
             [\<lparr>loc_plate_x = Some (1/2), loc_plate_z = Some (5/2), loc_pitch_type = Some ''FF'',
               loc_description = Some ''ball'', loc_outcome = None\<rparr>,
              \<lparr>loc_plate_x = Some (- 1/4), loc_plate_z = Some 2, loc_pitch_type = Some ''FF'',
               loc_description = Some ''ball'', loc_outcome = None\<rparr>]\<rparr>)"
    using t by (auto simp add: located_response prod_eq_iff)
  from h u un ul p show ?thesis by (intro conjI)
qed

theorem same_result_counterexample:
  "pitches_operation (sql_locations located_store) 1 (Some 0) (Some 0) (Some ''l'') None \<noteq>
   pitches_operation (sql_locations located_store) 1 (Some 0) (Some 0) None None"
  by (simp add: pitches_operation_boundary pitcher_pitches_result)

section \<open>The pitcher registry\<close>

lemma select_pitcher_id_None:
  "select_pitcher_id tbl m = None \<longleftrightarrow> m \<notin> p_mlb_id ` set tbl"
proof -
  have "select_pitcher_id tbl m = None \<longleftrightarrow> filter (\<lambda>p. p_mlb_id p = m) tbl = []"
    by (simp add: select_pitcher_id_def split: list.splits)
  also have "\<dots> \<longleftrightarrow> m \<notin> p_mlb_id ` set tbl"
    by (auto simp: filter_empty_conv)
  finally show ?thesis .
qed

lemma select_pitcher_id_append:
  "select_pitcher_id tbl m = Some i \<Longrightarrow> select_pitcher_id (tbl @ ext) m = Some i"
  by (auto simp: select_pitcher_id_def split: list.splits)

lemma get_or_create_pitcher_new:
  assumes "m \<notin> p_mlb_id ` set (db_pitchers db)"
  shows "get_or_create_pitcher db m name hand =
           (lastrowid (db_pitchers db),
            db\<lparr>db_pitchers := db_pitchers db @
                 [\<lparr>p_id = lastrowid (db_pitchers db), p_mlb_id = m, p_name = name,
                   p_throws_hand = hand\<rparr>]\<rparr>)"
  using assms select_pitcher_id_None[of "db_pitchers db" m]
  by (simp add: get_or_create_pitcher_def Let_def)

lemma get_or_create_pitcher_known:
  assumes "m \<in> p_mlb_id ` set (db_pitchers db)"
  shows "snd (get_or_create_pitcher db m name hand) = db"
  using assms select_pitcher_id_None[of "db_pitchers db" m]
  by (auto simp add: get_or_create_pitcher_def split: option.splits)

lemma get_or_create_pitcher_selects:
  "select_pitcher_id (db_pitchers (snd (get_or_create_pitcher db m name hand))) m =
     Some (fst (get_or_create_pitcher db m name hand))"
proof (cases "select_pitcher_id (db_pitchers db) m")
  case None
  then show ?thesis
    by (simp add: get_or_create_pitcher_def Let_def select_pitcher_id_def split: list.splits)
next
  case (Some i)
  then show ?thesis by (simp add: get_or_create_pitcher_def)
qed

lemma get_or_create_pitcher_repeat:
  assumes "select_pitcher_id (db_pitchers db) m = Some i"
  shows "get_or_create_pitcher db m name hand = (i, db)"
  using assms by (simp add: get_or_create_pitcher_def)

lemma get_or_create_pitcher_extends:
  "\<exists>ext. db_pitchers (snd (get_or_create_pitcher db m name hand)) = db_pitchers db @ ext"
  by (simp add: get_or_create_pitcher_def Let_def split: option.splits)

lemma get_or_create_pitcher_pitches:
  "db_pitches (snd (get_or_create_pitcher db m name hand)) = db_pitches db"
  by (simp add: get_or_create_pitcher_def Let_def split: option.splits)

lemma records_with_get_or_create:
  "records_with k (snd (get_or_create_pitcher db m name hand)) =
     (if k = m \<and> m \<notin> p_mlb_id ` set (db_pitchers db) then 1 else records_with k db)"
proof (cases "m \<in> p_mlb_id ` set (db_pitchers db)")
  case True
  then show ?thesis by (simp add: get_or_create_pitcher_known)
next
  case False
  then have "filter (\<lambda>p. p_mlb_id p = m) (db_pitchers db) = []"
    by (auto simp: filter_empty_conv)
  then show ?thesis using False
    by (auto simp add: get_or_create_pitcher_new records_with_def)
qed

lemma ids_get_or_create:
  "p_mlb_id ` set (db_pitchers (snd (get_or_create_pitcher db m name hand))) =
     insert m (p_mlb_id ` set (db_pitchers db))"
proof (cases "m \<in> p_mlb_id ` set (db_pitchers db)")
  case True
  then show ?thesis by (auto simp add: get_or_create_pitcher_known)
next
  case False
  then show ?thesis by (simp add: get_or_create_pitcher_new)
qed

lemma resolve_all_Cons:
  "resolve_all ((m, name, hand) # calls) db =
     (fst (get_or_create_pitcher db m name hand) #
        fst (resolve_all calls (snd (get_or_create_pitcher db m name hand))),
      snd (resolve_all calls (snd (get_or_create_pitcher db m name hand))))"
  by (simp add: case_prod_beta)

declare resolve_all.simps(2) [simp del]

lemma resolve_all_ids:
  "p_mlb_id ` set (db_pitchers (snd (resolve_all calls db))) =
     p_mlb_id ` set (db_pitchers db) \<union> fst ` set calls"
proof (induction calls arbitrary: db)
  case Nil
  then show ?case by simp
next
  case (Cons c calls)
  obtain m name hand where c: "c = (m, name, hand)" by (cases c) auto
  show ?case by (simp add: c resolve_all_Cons Cons.IH ids_get_or_create)
qed

lemma resolve_all_records_with:
  assumes "\<forall>k. records_with k db \<le> 1"
  shows "records_with k (snd (resolve_all calls db)) =
           (if k \<in> p_mlb_id ` set (db_pitchers db) \<union> fst ` set calls then 1 else 0)"
  using assms
proof (induction calls arbitrary: db)
  case Nil
  have "records_with k db = 0 \<longleftrightarrow> k \<notin> p_mlb_id ` set (db_pitchers db)"
    by (auto simp: records_with_def filter_empty_conv)
  with Nil[rule_format, of k] show ?case by (auto simp del: image_iff)
next
  case (Cons c calls)
  obtain m name hand where c: "c = (m, name, hand)" by (cases c) auto
  let ?db = "snd (get_or_create_pitcher db m name hand)"
  have "\<forall>k. records_with k ?db \<le> 1"
    using Cons.prems by (simp add: records_with_get_or_create)
  from Cons.IH[OF this] show ?case
    by (simp add: c resolve_all_Cons ids_get_or_create)
qed

lemma resolve_all_select:
  assumes "select_pitcher_id (db_pitchers db) m = Some i"
  shows "select_pitcher_id (db_pitchers (snd (resolve_all calls db))) m = Some i"
  using assms
proof (induction calls arbitrary: db)
  case Nil
  then show ?case by simp
next
  case (Cons c calls)
  obtain m' name hand where c: "c = (m', name, hand)" by (cases c) auto
  obtain ext where "db_pitchers (snd (get_or_create_pitcher db m' name hand)) = db_pitchers db @ ext"
    using get_or_create_pitcher_extends by blast
  then have "select_pitcher_id (db_pitchers (snd (get_or_create_pitcher db m' name hand))) m = Some i"
    using Cons.prems by (simp add: select_pitcher_id_append)
  from Cons.IH[OF this] show ?case by (simp add: c resolve_all_Cons)
qed

lemma resolve_all_pitches:
  "db_pitches (snd (resolve_all calls db)) = db_pitches db"
proof (induction calls arbitrary: db)
  case Nil
  then show ?case by simp
next
  case (Cons c calls)
  obtain m name hand where c: "c = (m, name, hand)" by (cases c) auto
  show ?case by (simp add: c resolve_all_Cons Cons.IH get_or_create_pitcher_pitches)
qed

text \<open>
  Claim C5. \<^verbatim>\<open>get_or_create_pitcher\<close> is idempotent by external id. From a registry with
  at most one record for every external id (an empty one, for instance), every sequence of
  calls leads to a registry with exactly one record for every external id that was in the
  registry or was passed to a call, and none for any other. A call with an external id that
  the registry lacks appends exactly one record, with the candidate name and hand and the
  id that it returns. A later call with the same external id, after any further calls and
  with any candidate name and hand, returns the same internal id and changes nothing.
\<close>

theorem resolve_idempotent_by_external_id:
  assumes "\<forall>k. records_with k db \<le> 1"
  shows "records_with k (snd (resolve_all calls db)) =
           (if k \<in> p_mlb_id ` set (db_pitchers db) \<union> fst ` set calls then 1 else 0) \<and>
         (m \<notin> p_mlb_id ` set (db_pitchers db) \<longrightarrow>
            get_or_create_pitcher db m name hand =
              (lastrowid (db_pitchers db),
               db\<lparr>db_pitchers := db_pitchers db @
                    [\<lparr>p_id = lastrowid (db_pitchers db), p_mlb_id = m, p_name = name,
                      p_throws_hand = hand\<rparr>]\<rparr>)) \<and>
         get_or_create_pitcher
             (snd (resolve_all calls (snd (get_or_create_pitcher db m name hand)))) m name' hand' =
           (fst (get_or_create_pitcher db m name hand),
            snd (resolve_all calls (snd (get_or_create_pitcher db m name hand))))"
proof -
  have "select_pitcher_id
          (db_pitchers (snd (resolve_all calls (snd (get_or_create_pitcher db m name hand))))) m =
        Some (fst (get_or_create_pitcher db m name hand))"
    by (rule resolve_all_select) (rule get_or_create_pitcher_selects)
  then have "get_or_create_pitcher
             (snd (resolve_all calls (snd (get_or_create_pitcher db m name hand)))) m name' hand' =
           (fst (get_or_create_pitcher db m name hand),
            snd (resolve_all calls (snd (get_or_create_pitcher db m name hand))))"
    by (rule get_or_create_pitcher_repeat)
  then show ?thesis
    using resolve_all_records_with[OF assms, of k calls] get_or_create_pitcher_new[of m db name hand]
    by simp
qed

lemma example_registry_run:
  "resolve_all [(101, ''Ace'', ''R''), (202, ''Bo'', ''L''), (101, ''Other'', ''L'')]
     \<lparr>db_pitchers = [], db_pitches = []\<rparr> =
   ([1, 2, 1],
    \<lparr>db_pitchers =
       [\<lparr>p_id = 1, p_mlb_id = 101, p_name = ''Ace'', p_throws_hand = ''R''\<rparr>,
        \<lparr>p_id = 2, p_mlb_id = 202, p_name = ''Bo'', p_throws_hand = ''L''\<rparr>],
     db_pitches = []\<rparr>)"
  by (simp add: resolve_all.simps get_or_create_pitcher_def select_pitcher_id_def lastrowid_def)

theorem resolve_idempotent_by_external_id_witness:
  "(\<forall>k. records_with k \<lparr>db_pitchers = [], db_pitches = []\<rparr> \<le> 1) \<and>
   resolve_all [(101, ''Ace'', ''R''), (202, ''Bo'', ''L''), (101, ''Other'', ''L'')]
     \<lparr>db_pitchers = [], db_pitches = []\<rparr> =
   ([1, 2, 1],
    \<lparr>db_pitchers =
       [\<lparr>p_id = 1, p_mlb_id = 101, p_name = ''Ace'', p_throws_hand = ''R''\<rparr>,
        \<lparr>p_id = 2, p_mlb_id = 202, p_name = ''Bo'', p_throws_hand = ''L''\<rparr>],
     db_pitches = []\<rparr>) \<and>
   records_with 101
     (snd (resolve_all [(101, ''Ace'', ''R''), (202, ''Bo'', ''L''), (101, ''Other'', ''L'')]
        \<lparr>db_pitchers = [], db_pitches = []\<rparr>)) = 1 \<and>
   records_with 303
     (snd (resolve_all [(101, ''Ace'', ''R''), (202, ''Bo'', ''L''), (101, ''Other'', ''L'')]
        \<lparr>db_pitchers = [], db_pitches = []\<rparr>)) = 0"
proof -
  have h: "\<forall>k. records_with k \<lparr>db_pitchers = [], db_pitches = []\<rparr> \<le> 1"
    by (simp add: records_with_def)
  note t = resolve_idempotent_by_external_id[OF h, THEN conjunct1]
  have a: "records_with 101
     (snd (resolve_all [(101, ''Ace'', ''R''), (202, ''Bo'', ''L''), (101, ''Other'', ''L'')]
        \<lparr>db_pitchers = [], db_pitches = []\<rparr>)) = 1"
    using t[of 101 "[(101, ''Ace'', ''R''), (202, ''Bo'', ''L''), (101, ''Other'', ''L'')]"]
    by simp
  have b: "records_with 303
     (snd (resolve_all [(101, ''Ace'', ''R''), (202, ''Bo'', ''L''), (101, ''Other'', ''L'')]
        \<lparr>db_pitchers = [], db_pitches = []\<rparr>)) = 0"
    using t[of 303 "[(101, ''Ace'', ''R''), (202, ''Bo'', ''L''), (101, ''Other'', ''L'')]"]
    by simp
  from h a b example_registry_run show ?thesis by (intro conjI)
qed

section \<open>Rows and files\<close>

lemma py_int_empty: "py_int [] = None"
  by (simp add: py_int_def strip_def)

lemma to_int_Some_truthy: "to_int v = Some i \<Longrightarrow> truthy v"
  by (cases v) (auto simp: to_int_def truthy_def py_int_empty)

lemma select_pitcher_id_mem:
  "select_pitcher_id tbl m = Some i \<Longrightarrow> i \<in> p_id ` set tbl"
proof -
  assume a: "select_pitcher_id tbl m = Some i"
  then obtain p ps where f: "filter (\<lambda>p. p_mlb_id p = m) tbl = p # ps" and i: "i = p_id p"
    by (auto simp: select_pitcher_id_def split: list.splits)
  have "p \<in> set (filter (\<lambda>p. p_mlb_id p = m) tbl)" by (simp add: f)
  then have "p \<in> set tbl" by simp
  then show ?thesis using i by blast
qed

lemma get_or_create_pitcher_id_mem:
  "fst (get_or_create_pitcher db m name hand) \<in>
     p_id ` set (db_pitchers (snd (get_or_create_pitcher db m name hand)))"
  using get_or_create_pitcher_selects[of db m name hand] by (rule select_pitcher_id_mem)

text \<open>The three early exits of the loop body, and what the body does otherwise.\<close>

lemma process_row_no_pitcher:
  "\<not> truthy (row_get row (pitcher_col cols)) \<Longrightarrow> process_row pf cols row db = db"
  by (simp add: process_row_def Let_def)


lemma process_row_no_type:
  assumes "to_int (row_get row (pitcher_col cols)) = Some i"
    and "\<not> truthy (row_get row (pitch_type_col cols))"
  shows "process_row pf cols row db =
           snd (get_or_create_pitcher db i
                  (or_default (row_get row (player_name_col cols)) ''Unknown Pitcher'')
                  (or_default (row_get row (p_throws_col cols)) ''''))"
  using assms to_int_Some_truthy[OF assms(1)]
  by (simp add: process_row_def Let_def case_prod_beta)









subsection \<open>The example files, evaluated\<close>

lemma example_sanitized:
  "sanitize_header ''pitch_type'' = ''pitch_type''" "sanitize_header ''pitcher'' = ''pitcher''"
  "sanitize_header ''player_name'' = ''player_name''" "sanitize_header ''balls'' = ''balls''"
  "sanitize_header ''strikes'' = ''strikes''" "sanitize_header ''stand'' = ''stand''"
  "sanitize_header ''description'' = ''description''"
  by code_simp+

lemma example_columns:
  "resolve_columns example_header =
     \<lparr>pitch_type_col = Some ''pitch_type'', pitcher_col = Some ''pitcher'',
      player_name_col = Some ''player_name'', p_throws_col = None, game_date_col = None,
      stand_col = Some ''stand'', balls_col = Some ''balls'', strikes_col = Some ''strikes'',
      release_speed_col = None, plate_x_col = None, plate_z_col = None, sz_top_col = None,
      sz_bot_col = None, inning_col = None, inning_tb_col = None,
      description_col = Some ''description'', events_col = None\<rparr>"
  by (simp add: resolve_columns_def header_map_def example_header_def col_def example_sanitized)

lemma example_ints:
  "to_int (Some ''543037'') = Some 543037" "to_int (Some ''605483'') = Some 605483"
  "to_int (Some ''12a'') = None" "to_int (Some ''1'') = Some 1" "to_int (Some ''2'') = Some 2"
  "to_int (Some ''0'') = Some 0"
  by code_simp+

lemmas example_unfold =
  process_row_def example_columns truthy_def row_get_def example_ints get_or_create_pitcher_def
  select_pitcher_id_def lastrowid_def empty_db_def or_default_def or_none_def topbot_def
  to_float_def no_floats_def Let_def

lemma example_good_row:
  "process_row no_floats (resolve_columns example_header) good_row empty_db =
     \<lparr>db_pitchers =
        [\<lparr>p_id = 1, p_mlb_id = 543037, p_name = ''Cole, Gerrit'', p_throws_hand = ''''\<rparr>],
      db_pitches =
        [\<lparr>pitcher_id = 1, game_date = None, inning = None, top_bottom = None,
          batter_hand = Some ''R'', balls = Some 1, strikes = Some 2, pitch_type = Some ''FF'',
          velocity = None, plate_x = None, plate_z = None, sz_top = None, sz_bot = None,
          description = Some ''swinging_strike'', outcome = None, runs_value = None\<rparr>]\<rparr>"
  by (simp add: example_unfold good_row_def)

lemma example_blank_type_row:
  "process_row no_floats (resolve_columns example_header) blank_type_row empty_db =
     \<lparr>db_pitchers =
        [\<lparr>p_id = 1, p_mlb_id = 605483, p_name = ''Snell, Blake'', p_throws_hand = ''''\<rparr>],
      db_pitches = []\<rparr>"
  by (simp add: example_unfold blank_type_row_def)

lemma example_unresolved_rows:
  "process_row no_floats (resolve_columns example_header) no_pitcher_row empty_db = empty_db"
  "process_row no_floats (resolve_columns example_header) bad_pitcher_row empty_db = empty_db"
  by (simp_all add: example_unfold no_pitcher_row_def bad_pitcher_row_def)

lemma example_truthy_columns:
  "truthy (pitcher_col (resolve_columns example_header))"
  "truthy (pitch_type_col (resolve_columns example_header))"
  by (simp_all add: example_columns truthy_def)

lemma example_good_file:
  "process_csv no_floats good_file empty_db =
     (process_row no_floats (resolve_columns example_header) good_row empty_db,
      [Loading ''a.csv'', Headers example_header, Finished ''a.csv'' 1], None)"
  by (simp add: process_csv_def good_file_def example_truthy_columns)
     (simp add: example_header_def)

lemma example_blank_type_file:
  "process_csv no_floats blank_type_file empty_db =
     (process_row no_floats (resolve_columns example_header) blank_type_row empty_db,
      [Loading ''b.csv'', Headers example_header, Finished ''b.csv'' 1], None)"
  by (simp add: process_csv_def blank_type_file_def example_truthy_columns)
     (simp add: example_header_def)

lemma example_broken_file:
  "process_csv no_floats broken_file db =
     (process_row no_floats (resolve_columns example_header) good_row db,
      [Loading ''d.csv'', Headers example_header], Some CsvError)"
  by (simp add: process_csv_def broken_file_def example_truthy_columns)
     (simp add: example_header_def)

lemma example_undecodable_file:
  "process_csv no_floats undecodable_file db = (db, [Loading ''c.csv''], Some UnicodeDecodeError)"
  by (simp add: process_csv_def undecodable_file_def)

lemma example_headerless_file:
  "process_csv no_floats headerless_file db =
     (db, [Loading ''e.csv'', NoHeaderFound ''e.csv''], None)"
  by (simp add: process_csv_def headerless_file_def)



text \<open>
  Claim C9. For a source row whose pitcher cell parses as an integer id that the registry
  lacks and whose pitch-type cell is absent or empty, the loop body appends a pitcher record
  for that id to the registry and inserts no pitch event: the pitcher is created before the
  pitch type is checked. After the ingestion of a file with one such row into an empty
  database (the witness), the registry holds a pitcher for which no pitch event exists.
\<close>

theorem pitcher_created_before_type_check:
  assumes "to_int (row_get row (pitcher_col cols)) = Some i"
    and "i \<notin> p_mlb_id ` set (db_pitchers db)"
    and "\<not> truthy (row_get row (pitch_type_col cols))"
  shows "process_row pf cols row db =
           db\<lparr>db_pitchers := db_pitchers db @
                [\<lparr>p_id = lastrowid (db_pitchers db), p_mlb_id = i,
                  p_name = or_default (row_get row (player_name_col cols)) ''Unknown Pitcher'',
                  p_throws_hand = or_default (row_get row (p_throws_col cols)) ''''\<rparr>]\<rparr> \<and>
         db_pitches (process_row pf cols row db) = db_pitches db \<and>
         records_with i db = 0 \<and> records_with i (process_row pf cols row db) = 1"
proof -
  have "filter (\<lambda>p. p_mlb_id p = i) (db_pitchers db) = []"
    using assms(2) by (auto simp: filter_empty_conv)
  then show ?thesis
    by (simp add: process_row_no_type[OF assms(1,3)] get_or_create_pitcher_new[OF assms(2)]
        records_with_def)
qed

lemma example_blank_type_run:
  "main no_floats (Some [blank_type_file]) empty_db =
     (\<lparr>db_pitchers =
         [\<lparr>p_id = 1, p_mlb_id = 605483, p_name = ''Snell, Blake'', p_throws_hand = ''''\<rparr>],
       db_pitches = []\<rparr>,
      [Found 1, Loading ''b.csv'', Headers example_header, Finished ''b.csv'' 1, AllIngested],
      None)"
  by (simp add: main_def example_blank_type_file example_blank_type_row)

theorem pitcher_created_before_type_check_witness:
  "to_int (row_get blank_type_row (pitcher_col (resolve_columns example_header))) = Some 605483 \<and>
   605483 \<notin> p_mlb_id ` set (db_pitchers empty_db) \<and>
   \<not> truthy (row_get blank_type_row (pitch_type_col (resolve_columns example_header))) \<and>
   process_row no_floats (resolve_columns example_header) blank_type_row empty_db =
     \<lparr>db_pitchers =
        [\<lparr>p_id = 1, p_mlb_id = 605483, p_name = ''Snell, Blake'', p_throws_hand = ''''\<rparr>],
      db_pitches = []\<rparr> \<and>
   main no_floats (Some [blank_type_file]) empty_db =
     (\<lparr>db_pitchers =
         [\<lparr>p_id = 1, p_mlb_id = 605483, p_name = ''Snell, Blake'', p_throws_hand = ''''\<rparr>],
       db_pitches = []\<rparr>,
      [Found 1, Loading ''b.csv'', Headers example_header, Finished ''b.csv'' 1, AllIngested],
      None)"
proof -
  let ?cols = "resolve_columns example_header"
  have h1: "to_int (row_get blank_type_row (pitcher_col ?cols)) = Some 605483"
    by (simp add: example_columns row_get_def blank_type_row_def example_ints)
  have h2: "605483 \<notin> p_mlb_id ` set (db_pitchers empty_db)"
    by (simp add: empty_db_def)
  have h3: "\<not> truthy (row_get blank_type_row (pitch_type_col ?cols))"
    by (simp add: example_columns row_get_def truthy_def blank_type_row_def)
  from pitcher_created_before_type_check[OF h1 h2 h3, of no_floats, THEN conjunct1]
  have r: "process_row no_floats ?cols blank_type_row empty_db =
     \<lparr>db_pitchers =
        [\<lparr>p_id = 1, p_mlb_id = 605483, p_name = ''Snell, Blake'', p_throws_hand = ''''\<rparr>],
      db_pitches = []\<rparr>"
    by (simp add: empty_db_def lastrowid_def example_columns row_get_def blank_type_row_def
        or_default_def)
  from h1 h2 h3 r example_blank_type_run show ?thesis by (intro conjI)
qed


subsection \<open>Files that are skipped and files that raise\<close>

lemma process_rows_error:
  "snd (snd (process_rows pf cols recs n db)) =
     (case filter isl recs of [] \<Rightarrow> None | r # _ \<Rightarrow> Some (projl r))"
proof (induction recs arbitrary: n db)
  case Nil
  then show ?case by simp
next
  case (Cons r recs)
  then show ?case by (cases r) simp_all
qed

lemma process_csv_skipped:
  assumes "skipped_file f"
  shows "process_csv pf f db =
           (db,
            (case fieldnames f of
               Inr hs \<Rightarrow>
                 if hs = [] then [Loading (file_name f), NoHeaderFound (file_name f)]
                 else [Loading (file_name f), Headers (take 10 hs),
                       RequiredColumnsMissing (file_name f)]
             | Inl e \<Rightarrow> []),
            None)"
  using assms by (auto simp: skipped_file_def process_csv_def Let_def split: sum.splits)

lemma process_csv_error: "snd (snd (process_csv pf f db)) = file_error f"
proof (cases "fieldnames f")
  case (Inl e)
  then show ?thesis by (simp add: process_csv_def file_error_def)
next
  case (Inr hs)
  show ?thesis
  proof (cases "skipped_file f")
    case True
    then show ?thesis by (simp add: process_csv_skipped file_error_def Inr)
  next
    case False
    then have ok: "hs \<noteq> []" "truthy (pitcher_col (resolve_columns hs))"
      "truthy (pitch_type_col (resolve_columns hs))"
      by (simp_all add: skipped_file_def Inr)
    obtain db' k err where r: "process_rows pf (resolve_columns hs) (records f) 0 db = (db', k, err)"
      by (cases "process_rows pf (resolve_columns hs) (records f) 0 db") auto
    have e: "err = (case filter isl (records f) of [] \<Rightarrow> None | r # _ \<Rightarrow> Some (projl r))"
      using process_rows_error[of pf "resolve_columns hs" "records f" 0 db] by (simp add: r)
    have "snd (snd (process_csv pf f db)) = err"
      using ok by (cases err) (simp_all add: process_csv_def Inr Let_def r)
    moreover have "file_error f = err"
      using False by (simp add: file_error_def Inr e)
    ultimately show ?thesis by simp
  qed
qed

lemma process_files_Cons:
  "process_files pf (g # fs) db =
     (if snd (snd (process_csv pf g db)) \<noteq> None then process_csv pf g db
      else (fst (process_files pf fs (fst (process_csv pf g db))),
            fst (snd (process_csv pf g db)) @
              fst (snd (process_files pf fs (fst (process_csv pf g db)))),
            snd (snd (process_files pf fs (fst (process_csv pf g db))))))"
  by (auto split: prod.splits option.splits)

declare process_files.simps(2) [simp del]

lemma process_files_skipped:
  assumes "skipped_file f"
  shows "fst (process_files pf (pre @ f # post) db) = fst (process_files pf (pre @ post) db) \<and>
         snd (snd (process_files pf (pre @ f # post) db)) =
           snd (snd (process_files pf (pre @ post) db))"
proof (induction pre arbitrary: db)
  case Nil
  show ?case
    by (simp add: process_files_Cons process_csv_skipped[OF assms])
next
  case (Cons g pre)
  show ?case
    using Cons.IH[of "fst (process_csv pf g db)"] by (simp add: process_files_Cons)
qed

lemma process_files_error:
  assumes "\<forall>g \<in> set pre. file_error g = None" and "file_error f = Some e"
  shows "snd (snd (process_files pf (pre @ f # post) db)) = Some e"
  using assms(1)
proof (induction pre arbitrary: db)
  case Nil
  show ?case by (simp add: process_files_Cons process_csv_error assms(2))
next
  case (Cons g pre)
  then show ?case by (simp add: process_files_Cons process_csv_error)
qed

lemma main_skipped:
  assumes "skipped_file f"
  shows "fst (main pf (Some (pre @ f # post)) db0) = fst (main pf (Some (pre @ post)) db0) \<and>
         snd (snd (main pf (Some (pre @ f # post)) db0)) =
           snd (snd (main pf (Some (pre @ post)) db0))"
proof (cases "pre @ post = []")
  case True
  then show ?thesis
    by (simp add: main_def process_files_Cons process_csv_skipped[OF assms])
next
  case False
  obtain d1 o1 e1 where r1: "process_files pf (pre @ f # post) db0 = (d1, o1, e1)"
    by (cases "process_files pf (pre @ f # post) db0") auto
  obtain d2 o2 e2 where r2: "process_files pf (pre @ post) db0 = (d2, o2, e2)"
    by (cases "process_files pf (pre @ post) db0") auto
  from process_files_skipped[OF assms, of pf pre post db0] have "d1 = d2" "e1 = e2"
    by (simp_all add: r1 r2)
  then show ?thesis using False
    by (cases e2) (auto simp add: main_def r1 r2)
qed

lemma main_error:
  assumes "\<forall>g \<in> set pre. file_error g = None" and "file_error f = Some e"
  shows "fst (main pf (Some (pre @ f # post)) db0) = db0 \<and>
         snd (snd (main pf (Some (pre @ f # post)) db0)) = Some e \<and>
         AllIngested \<notin> set (fst (snd (main pf (Some (pre @ f # post)) db0)))"
proof -
  obtain d1 o1 where r1: "process_files pf (pre @ f # post) db0 = (d1, o1, Some e)"
    using process_files_error[OF assms, of pf post db0]
    by (cases "process_files pf (pre @ f # post) db0") auto
  have csv: "AllIngested \<notin> set (fst (snd (process_csv pf g db)))" for g db
    by (auto simp: process_csv_def Let_def split: sum.splits prod.splits option.splits)
  have "AllIngested \<notin> set (fst (snd (process_files pf fs db)))" for fs db
    by (induction fs arbitrary: db) (simp_all add: process_files_Cons csv)
  from this[of "pre @ f # post" db0] show ?thesis by (simp add: main_def r1)
qed


text \<open>
  Claim C7, as amended. A source file that has no header row, or that lacks the pitcher or
  the pitch-type column, is skipped with a printed message, and the run continues with the
  remaining files: it commits the same database, and ends with the same outcome, as the run
  without that file. A file that cannot be opened, decoded or parsed raises an error that
  nothing catches: the run ends at that file with the error, does not reach the commit
  after the loop, and leaves the committed database as it was before the run. (The claim
  as stated fails on the run of the example below: a file with one complete row followed
  by a file whose second row cannot be parsed.)
\<close>

theorem malformed_files:
  "(skipped_file f \<longrightarrow>
      fst (process_csv pf f db) = db \<and> snd (snd (process_csv pf f db)) = None \<and>
      (NoHeaderFound (file_name f) \<in> set (fst (snd (process_csv pf f db))) \<or>
       RequiredColumnsMissing (file_name f) \<in> set (fst (snd (process_csv pf f db)))) \<and>
      fst (main pf (Some (pre @ f # post)) db0) = fst (main pf (Some (pre @ post)) db0) \<and>
      snd (snd (main pf (Some (pre @ f # post)) db0)) =
        snd (snd (main pf (Some (pre @ post)) db0))) \<and>
   (file_error f = Some e \<and> (\<forall>g \<in> set pre. file_error g = None) \<longrightarrow>
      snd (snd (process_csv pf f db)) = Some e \<and>
      fst (main pf (Some (pre @ f # post)) db0) = db0 \<and>
      snd (snd (main pf (Some (pre @ f # post)) db0)) = Some e \<and>
      AllIngested \<notin> set (fst (snd (main pf (Some (pre @ f # post)) db0))))"
proof -
  have a: "fst (process_csv pf f db) = db \<and> snd (snd (process_csv pf f db)) = None \<and>
      (NoHeaderFound (file_name f) \<in> set (fst (snd (process_csv pf f db))) \<or>
       RequiredColumnsMissing (file_name f) \<in> set (fst (snd (process_csv pf f db))))"
    if s: "skipped_file f"
  proof (cases "fieldnames f")
    case (Inl x)
    with s show ?thesis by (simp add: skipped_file_def)
  next
    case (Inr hs)
    show ?thesis by (cases "hs = []") (simp_all add: process_csv_skipped[OF s] Inr)
  qed
  have b: "fst (main pf (Some (pre @ f # post)) db0) = fst (main pf (Some (pre @ post)) db0) \<and>
      snd (snd (main pf (Some (pre @ f # post)) db0)) =
        snd (snd (main pf (Some (pre @ post)) db0))"
    if "skipped_file f"
    using that by (rule main_skipped)
  have c: "snd (snd (process_csv pf f db)) = Some e \<and>
      fst (main pf (Some (pre @ f # post)) db0) = db0 \<and>
      snd (snd (main pf (Some (pre @ f # post)) db0)) = Some e \<and>
      AllIngested \<notin> set (fst (snd (main pf (Some (pre @ f # post)) db0)))"
    if "file_error f = Some e \<and> (\<forall>g \<in> set pre. file_error g = None)"
  proof -
    from that have e: "file_error f = Some e" and p: "\<forall>g \<in> set pre. file_error g = None"
      by simp_all
    from main_error[OF p e, of pf post db0] process_csv_error[of pf f db] e
    show ?thesis by (simp only: simp_thms)
  qed
  from a b c show ?thesis by blast
qed

lemma example_pitcherless_columns:
  "\<not> truthy (pitcher_col (resolve_columns [''pitch_type'', ''balls'']))"
  by (simp add: resolve_columns_def header_map_def col_def truthy_def example_sanitized)

lemma example_header_nonempty: "example_header \<noteq> []"
  by (simp add: example_header_def)

lemma example_file_errors:
  "skipped_file headerless_file" "skipped_file pitcherless_file"
  "file_error good_file = None" "file_error broken_file = Some CsvError"
  "file_error undecodable_file = Some UnicodeDecodeError"
  by (simp_all add: skipped_file_def file_error_def headerless_file_def pitcherless_file_def
      good_file_def broken_file_def undecodable_file_def example_truthy_columns
      example_pitcherless_columns example_header_nonempty)

lemma example_good_run:
  "main no_floats (Some [good_file]) empty_db =
     (process_row no_floats (resolve_columns example_header) good_row empty_db,
      [Found 1, Loading ''a.csv'', Headers example_header, Finished ''a.csv'' 1, AllIngested],
      None)"
  by (simp add: main_def process_files_Cons example_good_file)

lemma example_broken_run:
  "main no_floats (Some [good_file, broken_file]) empty_db =
     (empty_db,
      [Found 2, Loading ''a.csv'', Headers example_header, Finished ''a.csv'' 1,
       Loading ''d.csv'', Headers example_header],
      Some CsvError)"
  by (simp add: main_def process_files_Cons example_good_file example_broken_file)

theorem malformed_files_witness:
  "skipped_file headerless_file \<and>
   main no_floats (Some [headerless_file, good_file]) empty_db =
     (fst (main no_floats (Some [good_file]) empty_db),
      [Found 2, Loading ''e.csv'', NoHeaderFound ''e.csv'', Loading ''a.csv'',
       Headers example_header, Finished ''a.csv'' 1, AllIngested],
      None) \<and>
   length (db_pitches (fst (main no_floats (Some [headerless_file, good_file]) empty_db))) = 1 \<and>
   file_error undecodable_file = Some UnicodeDecodeError \<and>
   file_error good_file = None \<and>
   main no_floats (Some [good_file, undecodable_file, blank_type_file]) empty_db =
     (empty_db,
      [Found 3, Loading ''a.csv'', Headers example_header, Finished ''a.csv'' 1,
       Loading ''c.csv''],
      Some UnicodeDecodeError)"
proof -
  note t = malformed_files[where f = headerless_file and pf = no_floats and db = empty_db
      and pre = "[]" and post = "[good_file]" and ?db0.0 = empty_db,
      THEN conjunct1, rule_format, OF example_file_errors(1)]
  have s: "main no_floats (Some [headerless_file, good_file]) empty_db =
     (fst (main no_floats (Some [good_file]) empty_db),
      [Found 2, Loading ''e.csv'', NoHeaderFound ''e.csv'', Loading ''a.csv'',
       Headers example_header, Finished ''a.csv'' 1, AllIngested],
      None)"
    using t
    by (simp add: main_def process_files_Cons example_headerless_file example_good_file)
  have n: "length (db_pitches (fst (main no_floats (Some [headerless_file, good_file]) empty_db))) = 1"
    by (simp add: s example_good_run example_good_row)
  have u: "main no_floats (Some [good_file, undecodable_file, blank_type_file]) empty_db =
     (empty_db,
      [Found 3, Loading ''a.csv'', Headers example_header, Finished ''a.csv'' 1,
       Loading ''c.csv''],
      Some UnicodeDecodeError)"
    using malformed_files[where f = undecodable_file and e = UnicodeDecodeError
        and pre = "[good_file]" and pf = no_floats and db = empty_db
        and post = "[blank_type_file]" and ?db0.0 = empty_db, THEN conjunct2]
    by (simp add: main_def process_files_Cons example_good_file example_undecodable_file)
  from example_file_errors(1,3,5) s n u show ?thesis by (intro conjI)
qed

theorem malformed_file_aborts_run_counterexample:
  "snd (snd (main no_floats (Some [good_file, broken_file]) empty_db)) = Some CsvError \<and>
   fst (main no_floats (Some [good_file, broken_file]) empty_db) = empty_db \<and>
   db_pitches (fst (process_csv no_floats good_file empty_db)) \<noteq> [] \<and>
   db_pitches (fst (main no_floats (Some [good_file]) empty_db)) \<noteq> []"
  by (simp add: example_broken_run example_good_run example_good_file example_good_row)

end
